theory Spec2Isabelle
  imports Complex_Main "HOL-Library.Multiset"
begin

section \<open>JavaScript values and strings\<close>

text \<open>
  The services of this repository (the taste analyzer and the recommender) read the text
  returned by a language model, hand it to \<^verbatim>\<open>JSON.parse\<close> and validate the
  value they get back. A parsed value is modelled by the datatype below. A JavaScript
  number is a double; the model takes it as a real number, so rounding is not modelled.
  An object is the list of its own properties; a property is read with \<open>getProp\<close>.

  A JavaScript string is a sequence of UTF-16 code units; the model uses \<^typ>\<open>string\<close>,
  whose characters are the code units below 256.
\<close>

datatype json =
    JNull
  | JBool bool
  | JNum real
  | JStr string
  | JArr "json list"
  | JObj "(string \<times> json) list"

text \<open>
  \<^verbatim>\<open>x.k\<close>: the property \<open>k\<close> of \<open>x\<close>, or \<^verbatim>\<open>undefined\<close> (\<open>None\<close>). The services
  read properties only from values for which \<^verbatim>\<open>typeof x === 'object'\<close> holds and
  \<open>x\<close> is not null, that is from objects and arrays; none of the names they read is a
  property of an array.
\<close>

fun getProp :: "json \<Rightarrow> string \<Rightarrow> json option" where
  "getProp (JObj kvs) k = map_of kvs k"
| "getProp _ k = None"

text \<open>\<^verbatim>\<open>x.k = v\<close> on an object.\<close>

fun setProp :: "json \<Rightarrow> string \<Rightarrow> json \<Rightarrow> json" where
  "setProp (JObj kvs) k v = JObj ((k, v) # kvs)"
| "setProp x k v = x"

text \<open>\<^verbatim>\<open>!x || typeof x !== 'object'\<close> is false exactly for objects and arrays.\<close>

fun isObject :: "json \<Rightarrow> bool" where
  "isObject (JObj kvs) = True"
| "isObject (JArr xs) = True"
| "isObject _ = False"

text \<open>\<^verbatim>\<open>typeof x === 'string'\<close>, \<^verbatim>\<open>typeof x === 'number'\<close> and
  \<^verbatim>\<open>Array.isArray(x)\<close>, each giving the value when the test holds.\<close>

fun asString :: "json option \<Rightarrow> string option" where
  "asString (Some (JStr s)) = Some s"
| "asString _ = None"

fun asNumber :: "json option \<Rightarrow> real option" where
  "asNumber (Some (JNum n)) = Some n"
| "asNumber _ = None"

fun asArray :: "json option \<Rightarrow> json list option" where
  "asArray (Some (JArr xs)) = Some xs"
| "asArray _ = None"

text \<open>Values thrown: an \<^verbatim>\<open>Error\<close> with its message, an HTTP error made by
  \<^verbatim>\<open>createError\<close> (an \<^verbatim>\<open>Error\<close> that has a \<^verbatim>\<open>statusCode\<close>), or a value
  that is not an \<^verbatim>\<open>Error\<close> and has no \<^verbatim>\<open>statusCode\<close>.\<close>

datatype thrown =
    Error string
  | H3Error nat string
  | NonError

subsection \<open>Strings\<close>

definition digitChar :: "nat \<Rightarrow> char" where
  "digitChar d =
     (if d = 0 then CHR ''0'' else if d = 1 then CHR ''1'' else if d = 2 then CHR ''2''
      else if d = 3 then CHR ''3'' else if d = 4 then CHR ''4'' else if d = 5 then CHR ''5''
      else if d = 6 then CHR ''6'' else if d = 7 then CHR ''7'' else if d = 8 then CHR ''8''
      else CHR ''9'')"

text \<open>\<^verbatim>\<open>String(n)\<close> for a natural number \<open>n\<close> (an array index, a length, an HTTP status).\<close>

fun natToString :: "nat \<Rightarrow> string" where
  "natToString n =
     (if n < 10 then [digitChar n] else natToString (n div 10) @ [digitChar (n mod 10)])"

declare natToString.simps [simp del]

text \<open>\<^verbatim>\<open>String(n)\<close> for a number whose value is the integer \<open>i\<close>: plain decimal digits
  below \<open>10\<^sup>2\<^sup>1\<close> in magnitude (\<^verbatim>\<open>-0\<close> prints as \<open>0\<close>), and the exponent form from there
  on. The exponent form is the runtime's and is the parameter \<open>exponentForm\<close>.\<close>

definition numberToString :: "(int \<Rightarrow> string) \<Rightarrow> int \<Rightarrow> string" where
  "numberToString exponentForm i =
     (if \<bar>i\<bar> < 10 ^ 21 then
        (if i < 0 then CHR ''-'' # natToString (nat (- i)) else natToString (nat i))
      else exponentForm i)"

definition startsWith :: "string \<Rightarrow> string \<Rightarrow> bool" where
  "startsWith s p = (take (length p) s = p)"

definition endsWith :: "string \<Rightarrow> string \<Rightarrow> bool" where
  "endsWith s p = (length p \<le> length s \<and> drop (length s - length p) s = p)"

text \<open>The white space that \<^verbatim>\<open>String.prototype.trim\<close> removes, among the code units
  below 256: tab, line feed, vertical tab, form feed, carriage return, space, no-break space.\<close>

definition isWhiteSpace :: "char \<Rightarrow> bool" where
  "isWhiteSpace c = (of_char c \<in> {9::nat, 10, 11, 12, 13, 32, 160})"

definition trim :: "string \<Rightarrow> string" where
  "trim s = rev (dropWhile isWhiteSpace (rev (dropWhile isWhiteSpace s)))"

text \<open>\<^verbatim>\<open>s.replace(/^```(?:json)?\n?/, '')\<close>: at the start of the string, three
  backticks, then \<open>json\<close> if it follows, then a line feed if it follows.\<close>

definition replaceOpeningFence :: "string \<Rightarrow> string" where
  "replaceOpeningFence s =
     (if startsWith s ''```'' then
        (let r1 = drop 3 s;
             r2 = (if startsWith r1 ''json'' then drop 4 r1 else r1)
         in if startsWith r2 ''\<newline>'' then drop 1 r2 else r2)
      else s)"

text \<open>\<^verbatim>\<open>s.replace(/\n?```$/, '')\<close>: three backticks at the very end of the string,
  with the line feed before them if there is one.\<close>

definition replaceClosingFence :: "string \<Rightarrow> string" where
  "replaceClosingFence s =
     (if endsWith s ''\<newline>```'' then take (length s - 4) s
      else if endsWith s ''```'' then take (length s - 3) s
      else s)"

text \<open>The first lines of both parsers: trim, then remove a Markdown code fence when the
  trimmed text starts with one.\<close>

definition extractJson :: "string \<Rightarrow> string" where
  "extractJson content =
     (let jsonContent = trim content
      in if startsWith jsonContent ''```''
         then replaceClosingFence (replaceOpeningFence jsonContent)
         else jsonContent)"

section \<open>The taste analyzer\<close>

record TasteCategory =
  name :: string
  weight :: real
  description :: string
  subCategories :: "string list option"

record TasteAnalysisResult =
  categories :: "TasteCategory list"
  analysisSummary :: string

text \<open>\<^verbatim>\<open>Math.max(0, Math.min(1, w))\<close>\<close>

definition clamp01 :: "real \<Rightarrow> real" where
  "clamp01 w = max 0 (min 1 w)"

text \<open>\<^verbatim>\<open>xs.filter((s): s is string => typeof s === 'string')\<close>\<close>

definition filterStrings :: "json list \<Rightarrow> string list" where
  "filterStrings xs = List.map_filter (\<lambda>s. asString (Some s)) xs"

text \<open>The callback of \<^verbatim>\<open>response.categories.map\<close> in \<^verbatim>\<open>parseAnalysisResponse\<close>.\<close>

definition validateCategory :: "json \<Rightarrow> nat \<Rightarrow> thrown + TasteCategory" where
  "validateCategory cat index =
     (if \<not> isObject cat then
        Inl (Error (''Category '' @ natToString index @ '' is not an object''))
      else (case asString (getProp cat ''name'') of
        None \<Rightarrow> Inl (Error (''Category '' @ natToString index @ '' missing name''))
      | Some nm \<Rightarrow>
        (case asNumber (getProp cat ''weight'') of
           None \<Rightarrow> Inl (Error (''Category '' @ natToString index @ '' missing weight''))
         | Some w \<Rightarrow>
           (case asString (getProp cat ''description'') of
              None \<Rightarrow> Inl (Error (''Category '' @ natToString index @ '' missing description''))
            | Some d \<Rightarrow>
              Inr \<lparr> name = nm,
                    weight = clamp01 w,
                    description = d,
                    subCategories = map_option filterStrings (asArray (getProp cat ''subCategories'')) \<rparr>))))"

text \<open>\<^verbatim>\<open>Array.prototype.map\<close> with that callback: entries are visited in index order
  and the first exception ends the whole call.\<close>

fun mapCategories :: "json list \<Rightarrow> nat \<Rightarrow> thrown + TasteCategory list" where
  "mapCategories [] index = Inr []"
| "mapCategories (cat # rest) index =
     (case validateCategory cat index of
        Inl e \<Rightarrow> Inl e
      | Inr c \<Rightarrow>
        (case mapCategories rest (Suc index) of
           Inl e \<Rightarrow> Inl e
         | Inr cs \<Rightarrow> Inr (c # cs)))"

text \<open>
  \<^verbatim>\<open>parseAnalysisResponse(content)\<close>. \<^verbatim>\<open>JSON.parse\<close> belongs to the JavaScript
  runtime and is a parameter: it returns the parsed value, or \<open>Inl\<close> of the text that
  \<^verbatim>\<open>${e}\<close> gives for the exception it throws.
\<close>

definition parseAnalysisResponse :: "(string \<Rightarrow> string + json) \<Rightarrow> string \<Rightarrow> thrown + TasteAnalysisResult" where
  "parseAnalysisResponse JSON_parse content =
     (case JSON_parse (extractJson content) of
        Inl e \<Rightarrow> Inl (Error (''Failed to parse LLM response as JSON: '' @ e))
      | Inr parsed \<Rightarrow>
        if \<not> isObject parsed then Inl (Error ''LLM response is not an object'')
        else (case asArray (getProp parsed ''categories'') of
          None \<Rightarrow> Inl (Error ''LLM response missing categories array'')
        | Some cats \<Rightarrow>
          (case asString (getProp parsed ''analysisSummary'') of
             None \<Rightarrow> Inl (Error ''LLM response missing analysisSummary string'')
           | Some summary \<Rightarrow>
             (case mapCategories cats 0 of
                Inl e \<Rightarrow> Inl e
              | Inr cs \<Rightarrow>
                (let totalWeight = foldl (\<lambda>sum cat. sum + weight cat) 0 cs
                 in Inr \<lparr> categories =
                            (if totalWeight > 0
                             then map (\<lambda>cat. cat\<lparr>weight := weight cat / totalWeight\<rparr>) cs
                             else cs),
                          analysisSummary = summary \<rparr>)))))"

section \<open>The recommendations parser\<close>

record RecommendationItem =
  type :: string
  channelTitle :: string
  channelId :: "string option"
  reason :: string
  category :: string
  confidenceScore :: real
  subscriberCount :: "real option"

record RecommendationsResult =
  recommendations :: "RecommendationItem list"

text \<open>\<^verbatim>\<open>typeof x !== 'string' || !x\<close> is false exactly for a string that is not empty.\<close>

definition nonEmptyString :: "json option \<Rightarrow> bool" where
  "nonEmptyString x = (case asString x of None \<Rightarrow> False | Some s \<Rightarrow> s \<noteq> [])"

text \<open>The casts \<^verbatim>\<open>x as string\<close> and \<^verbatim>\<open>x as number\<close>; where the source casts, the
  value is a string (a number) already.\<close>

definition castString :: "json option \<Rightarrow> string" where
  "castString x = (case asString x of None \<Rightarrow> [] | Some s \<Rightarrow> s)"

definition castNumber :: "json option \<Rightarrow> real" where
  "castNumber x = (case asNumber x of None \<Rightarrow> 0 | Some n \<Rightarrow> n)"

text \<open>One round of the loop over \<^verbatim>\<open>response.recommendations\<close>: \<^verbatim>\<open>continue\<close> leaves
  the list as it is, \<^verbatim>\<open>push\<close> appends to it. The loop writes its defaults into the
  entry before it reads them back. The warnings it prints are not modelled.\<close>

definition recommendationStep :: "RecommendationItem list \<Rightarrow> json \<Rightarrow> RecommendationItem list" where
  "recommendationStep recs rec =
     (if \<not> isObject rec then recs
      else if \<not> nonEmptyString (getProp rec ''channelTitle'') then recs
      else
        let item1 =
              (case asString (getProp rec ''type'') of
                 None \<Rightarrow> setProp rec ''type'' (JStr ''channel'')
               | Some t \<Rightarrow>
                 if t \<notin> set [''channel'', ''hidden_gem'', ''content_gap'']
                 then setProp rec ''type'' (JStr ''channel'') else rec)
        in if \<not> nonEmptyString (getProp item1 ''reason'') then recs
           else
             let item2 =
                   (if \<not> nonEmptyString (getProp item1 ''category'')
                    then setProp item1 ''category'' (JStr ''General'') else item1);
                 item3 =
                   (if asNumber (getProp item2 ''confidenceScore'') = None
                    then setProp item2 ''confidenceScore'' (JNum (7 / 10)) else item2)
             in recs @
                  [\<lparr> type = castString (getProp item3 ''type''),
                     channelTitle = castString (getProp item3 ''channelTitle''),
                     channelId = asString (getProp item3 ''channelId''),
                     reason = castString (getProp item3 ''reason''),
                     category = castString (getProp item3 ''category''),
                     confidenceScore = clamp01 (castNumber (getProp item3 ''confidenceScore'')),
                     subscriberCount = asNumber (getProp item3 ''subscriberCount'') \<rparr>])"

definition parseRecommendationsResponse ::
    "(string \<Rightarrow> string + json) \<Rightarrow> string \<Rightarrow> thrown + RecommendationsResult" where
  "parseRecommendationsResponse JSON_parse content =
     (case JSON_parse (extractJson content) of
        Inl e \<Rightarrow> Inl (Error (''Failed to parse LLM response as JSON: '' @ e))
      | Inr parsed \<Rightarrow>
        if \<not> isObject parsed then Inl (Error ''LLM response is not an object'')
        else (case asArray (getProp parsed ''recommendations'') of
          None \<Rightarrow> Inl (Error ''LLM response missing recommendations array'')
        | Some entries \<Rightarrow>
          (let recs = foldl recommendationStep [] entries
           in if length recs = 0
              then Inl (Error ''No valid recommendations in LLM response'')
              else Inr \<lparr> recommendations = recs \<rparr>)))"

section \<open>Building the analysis prompt\<close>

record ChannelData =
  channelTitle :: string
  channelDescription :: "string option"
  subscriberCount :: "real option"
  videoCount :: "real option"

record VideoData =
  videoTitle :: string
  channelTitle :: string

record TasteAnalysisInput =
  subscriptions :: "ChannelData list"
  likedVideos :: "VideoData list"

definition analyzer_SYSTEM_PROMPT :: string where
  "analyzer_SYSTEM_PROMPT =
     ''You are an expert content analyst specializing in understanding user preferences and interests based on their YouTube activity. Your task is to analyze a user's YouTube subscriptions and liked videos to create a detailed taste profile.\<newline>'' @
     ''\<newline>'' @
     ''You must respond with valid JSON only, no markdown formatting or code blocks.\<newline>'' @
     ''\<newline>'' @
     ''Analyze the provided data and identify:\<newline>'' @
     ''1. Major interest categories (e.g., Technology, Gaming, Music, Education, Entertainment, Sports, etc.)\<newline>'' @
     ''2. Subcategories within each major category\<newline>'' @
     ''3. The relative weight/importance of each category (0.0 to 1.0, all weights should sum to 1.0)\<newline>'' @
     ''4. A brief description of what specifically interests them in each category\<newline>'' @
     ''\<newline>'' @
     ''Be specific and insightful. Don't just list generic categories - identify the specific niches and themes that emerge from their viewing habits.''"

definition analyzer_USER_PROMPT_TEMPLATE :: string where
  "analyzer_USER_PROMPT_TEMPLATE =
     ''Analyze this YouTube activity data and create a taste profile:\<newline>'' @
     ''\<newline>'' @
     ''## Subscribed Channels ({{subscriptionCount}} total):\<newline>'' @
     ''{{subscriptions}}\<newline>'' @
     ''\<newline>'' @
     ''## Liked Videos ({{likedVideoCount}} total, showing sample):\<newline>'' @
     ''{{likedVideos}}\<newline>'' @
     ''\<newline>'' @
     ''Respond with JSON in this exact format:\<newline>'' @
     ''{\<newline>'' @
     ''  \"categories\": [\<newline>'' @
     ''    {\<newline>'' @
     ''      \"name\": \"Category Name\",\<newline>'' @
     ''      \"weight\": 0.25,\<newline>'' @
     ''      \"description\": \"Specific description of their interest in this area\",\<newline>'' @
     ''      \"subCategories\": [\"Subcategory 1\", \"Subcategory 2\"]\<newline>'' @
     ''    }\<newline>'' @
     ''  ],\<newline>'' @
     ''  \"analysisSummary\": \"A 2-3 sentence summary of their overall content preferences and what makes their taste unique.\"\<newline>'' @
     ''}\<newline>'' @
     ''\<newline>'' @
     ''Important:\<newline>'' @
     ''- Include 4-8 categories\<newline>'' @
     ''- Weights must sum to 1.0\<newline>'' @
     ''- Be specific, not generic\<newline>'' @
     ''- Base analysis on actual channel/video names provided''"

text \<open>\<^verbatim>\<open>xs.join(sep)\<close>\<close>

fun join :: "string \<Rightarrow> string list \<Rightarrow> string" where
  "join sep [] = []"
| "join sep [x] = x"
| "join sep (x # y # ys) = x @ sep @ join sep (y # ys)"

text \<open>\<^verbatim>\<open>s.indexOf(pat)\<close>, \<open>None\<close> for \<open>-1\<close>.\<close>

fun indexOf :: "string \<Rightarrow> string \<Rightarrow> nat option" where
  "indexOf [] pat = (if pat = [] then Some 0 else None)"
| "indexOf (c # cs) pat =
     (if startsWith (c # cs) pat then Some 0 else map_option Suc (indexOf cs pat))"

text \<open>The replacement text of \<^verbatim>\<open>String.prototype.replace\<close> for a string pattern:
  \<^verbatim>\<open>$$\<close> is a dollar sign, \<^verbatim>\<open>$&\<close> the matched text, \<^verbatim>\<open>$`\<close> the text before
  the match and \<^verbatim>\<open>$'\<close> the text after it; every other character stands for itself.\<close>

fun getSubstitution :: "string \<Rightarrow> string \<Rightarrow> string \<Rightarrow> string \<Rightarrow> string" where
  "getSubstitution matched before after [] = []"
| "getSubstitution matched before after [c] = [c]"
| "getSubstitution matched before after (c # d # rest) =
     (if c = CHR ''$'' \<and> d = CHR ''$'' then CHR ''$'' # getSubstitution matched before after rest
      else if c = CHR ''$'' \<and> d = CHR ''&'' then matched @ getSubstitution matched before after rest
      else if c = CHR ''$'' \<and> d = CHR 0x60 then before @ getSubstitution matched before after rest
      else if c = CHR ''$'' \<and> d = CHR 0x27 then after @ getSubstitution matched before after rest
      else c # getSubstitution matched before after (d # rest))"

text \<open>\<^verbatim>\<open>s.replace(pat, replacement)\<close> with a string pattern: the first occurrence only.\<close>

definition jsReplace :: "string \<Rightarrow> string \<Rightarrow> string \<Rightarrow> string" where
  "jsReplace s pat replacement =
     (case indexOf s pat of
        None \<Rightarrow> s
      | Some i \<Rightarrow>
        take i s
          @ getSubstitution pat (take i s) (drop (i + length pat) s) replacement
          @ drop (i + length pat) s)"

text \<open>\<^verbatim>\<open>a || b\<close> on strings: the empty string is falsy.\<close>

definition orElse :: "string \<Rightarrow> string \<Rightarrow> string" where
  "orElse a b = (if a = [] then b else a)"

definition formatSubscriptions :: "ChannelData list \<Rightarrow> nat \<Rightarrow> string" where
  "formatSubscriptions subs maxItems =
     join ''\<newline>''
       (map (\<lambda>sub.
               let parts = [''- '' @ ChannelData.channelTitle sub]
               in join '' ''
                    (case channelDescription sub of
                       None \<Rightarrow> parts
                     | Some d \<Rightarrow>
                       if d = [] then parts
                       else parts @ [''('' @ take 100 d @ (if length d > 100 then ''...'' else []) @ '')'']))
            (take maxItems subs))"

definition formatLikedVideos :: "VideoData list \<Rightarrow> nat \<Rightarrow> string" where
  "formatLikedVideos videos maxItems =
     join ''\<newline>''
       (map (\<lambda>video. ''- \"'' @ videoTitle video @ ''\" by '' @ VideoData.channelTitle video)
            (take maxItems videos))"

definition buildAnalysisPrompt :: "TasteAnalysisInput \<Rightarrow> string" where
  "buildAnalysisPrompt input =
     (let subscriptionsText = formatSubscriptions (subscriptions input) 50;
          likedVideosText = formatLikedVideos (likedVideos input) 30
      in jsReplace
           (jsReplace
              (jsReplace
                 (jsReplace analyzer_USER_PROMPT_TEMPLATE
                    ''{{subscriptionCount}}'' (natToString (length (subscriptions input))))
                 ''{{subscriptions}}'' (orElse subscriptionsText ''No subscriptions available''))
              ''{{likedVideoCount}}'' (natToString (length (likedVideos input))))
           ''{{likedVideos}}'' (orElse likedVideosText ''No liked videos available''))"

section \<open>The language-model service\<close>

datatype Role = system | user | assistant

record LLMMessage =
  role :: Role
  content :: string

record LLMCompletionOptions =
  temperature :: "real option"
  maxTokens :: "nat option"
  topP :: "real option"
  stop :: "string list option"

record Usage =
  promptTokens :: nat
  completionTokens :: nat
  totalTokens :: nat

datatype LLMProvider = github | openai | anthropic | ollama

record LLMCompletionResponse =
  content :: string
  usage :: "Usage option"
  model :: string
  provider :: LLMProvider

definition DEFAULT_MODELS :: "LLMProvider \<Rightarrow> string" where
  "DEFAULT_MODELS p =
     (case p of github \<Rightarrow> ''openai/gpt-4o'' | openai \<Rightarrow> ''gpt-4o''
      | anthropic \<Rightarrow> ''claude-3-5-sonnet-latest'' | ollama \<Rightarrow> ''llama3.2'')"

subsection \<open>The GitHub Models provider\<close>

definition GITHUB_MODELS_API_URL :: string where
  "GITHUB_MODELS_API_URL = ''https://models.github.ai/inference/chat/completions''"

record ChoiceMessage =
  role :: string
  content :: string

record GitHubModelsChoice =
  message :: ChoiceMessage
  finish_reason :: "string option"

record GitHubModelsUsage =
  prompt_tokens :: nat
  completion_tokens :: nat
  total_tokens :: nat

text \<open>The body of a successful reply. \<open>choices\<close> is \<open>None\<close> when the field is missing;
  an entry of the array is \<open>None\<close> when it is null.\<close>

record GitHubModelsResponse =
  choices :: "GitHubModelsChoice option list option"
  usage :: "GitHubModelsUsage option"
  model :: "string option"

record RequestBody =
  model :: string
  messages :: "LLMMessage list"
  temperature :: real
  max_tokens :: nat
  top_p :: real
  stop :: "string list option"

record HttpRequest =
  url :: string
  authorization :: string
  body :: RequestBody

text \<open>What \<^verbatim>\<open>fetch\<close> resolves to: \<open>bodyText\<close> is \<^verbatim>\<open>await response.text()\<close> and
  \<open>bodyJson\<close> is \<^verbatim>\<open>await response.json()\<close>, which may throw.\<close>

record HttpResponse =
  ok :: bool
  status :: nat
  bodyText :: string
  bodyJson :: "thrown + GitHubModelsResponse"

record GitHubModelsProvider =
  token :: string
  model :: string

text \<open>The state of the server process: the module variable \<^verbatim>\<open>cachedProvider\<close>, the
  requests sent to the network so far, and what \<^verbatim>\<open>console.error\<close> has printed.\<close>

record Server =
  cachedProvider :: "GitHubModelsProvider option"
  requests :: "HttpRequest list"
  consoleErrors :: "thrown list"

record ProcessEnv =
  GITHUB_TOKEN :: "string option"
  GITHUB_MODEL :: "string option"

definition isConfigured :: "GitHubModelsProvider \<Rightarrow> bool" where
  "isConfigured p = (token p \<noteq> [])"

text \<open>\<^verbatim>\<open>GitHubModelsProvider.complete\<close>; the network is the parameter \<open>fetch\<close>.\<close>

definition GitHubModelsProvider_complete ::
    "(HttpRequest \<Rightarrow> thrown + HttpResponse) \<Rightarrow> GitHubModelsProvider \<Rightarrow> LLMMessage list
       \<Rightarrow> LLMCompletionOptions \<Rightarrow> Server \<Rightarrow> (thrown + LLMCompletionResponse) \<times> Server" where
  "GitHubModelsProvider_complete fetch p msgs options s =
     (if \<not> isConfigured p then
        (Inl (Error ''GitHub Models provider is not configured. Set GITHUB_TOKEN environment variable.''), s)
      else
        let requestBody =
              \<lparr> RequestBody.model = GitHubModelsProvider.model p,
                messages = msgs,
                RequestBody.temperature =
                  (case LLMCompletionOptions.temperature options of None \<Rightarrow> 7 / 10 | Some t \<Rightarrow> t),
                max_tokens = (case maxTokens options of None \<Rightarrow> 4000 | Some m \<Rightarrow> m),
                top_p = (case topP options of None \<Rightarrow> 1 | Some t \<Rightarrow> t),
                RequestBody.stop = LLMCompletionOptions.stop options \<rparr>;
            request =
              \<lparr> url = GITHUB_MODELS_API_URL,
                authorization = ''Bearer '' @ token p,
                body = requestBody \<rparr>;
            s' = s\<lparr>requests := requests s @ [request]\<rparr>
        in case fetch request of
             Inl e \<Rightarrow> (Inl e, s')
           | Inr response \<Rightarrow>
             if \<not> ok response then
               (Inl (Error (''GitHub Models API error ('' @ natToString (status response) @ ''): ''
                              @ bodyText response)), s')
             else
               (case bodyJson response of
                  Inl e \<Rightarrow> (Inl e, s')
                | Inr data \<Rightarrow>
                  (case choices data of
                     None \<Rightarrow> (Inl (Error ''GitHub Models API returned no choices''), s')
                   | Some [] \<Rightarrow> (Inl (Error ''GitHub Models API returned no choices''), s')
                   | Some (None # others) \<Rightarrow>
                       (Inl (Error ''GitHub Models API returned empty choice''), s')
                   | Some (Some choice # others) \<Rightarrow>
                       (Inr \<lparr> LLMCompletionResponse.content = ChoiceMessage.content (message choice),
                              LLMCompletionResponse.usage =
                                map_option
                                  (\<lambda>u. \<lparr> promptTokens = prompt_tokens u,
                                          completionTokens = completion_tokens u,
                                          totalTokens = total_tokens u \<rparr>)
                                  (GitHubModelsResponse.usage data),
                              LLMCompletionResponse.model =
                                (case GitHubModelsResponse.model data of
                                   None \<Rightarrow> GitHubModelsProvider.model p
                                 | Some m \<Rightarrow> m),
                              provider = github \<rparr>, s'))))"

definition createGitHubModelsProvider :: "ProcessEnv \<Rightarrow> GitHubModelsProvider option" where
  "createGitHubModelsProvider env =
     (case GITHUB_TOKEN env of
        None \<Rightarrow> None
      | Some t \<Rightarrow>
        if t = [] then None
        else Some \<lparr> token = t,
                    GitHubModelsProvider.model =
                      (case GITHUB_MODEL env of None \<Rightarrow> DEFAULT_MODELS github | Some m \<Rightarrow> m) \<rparr>)"

definition getLLMProvider :: "ProcessEnv \<Rightarrow> Server \<Rightarrow> (thrown + GitHubModelsProvider) \<times> Server" where
  "getLLMProvider env s =
     (case cachedProvider s of
        Some p \<Rightarrow> (Inr p, s)
      | None \<Rightarrow>
        (case createGitHubModelsProvider env of
           Some githubProvider \<Rightarrow>
             if isConfigured githubProvider
             then (Inr githubProvider, s\<lparr>cachedProvider := Some githubProvider\<rparr>)
             else (Inl (Error ''No LLM provider configured. Please set GITHUB_TOKEN environment variable with a token that has models:read permission.''), s)
         | None \<Rightarrow>
             (Inl (Error ''No LLM provider configured. Please set GITHUB_TOKEN environment variable with a token that has models:read permission.''), s)))"

definition isLLMConfigured :: "ProcessEnv \<Rightarrow> Server \<Rightarrow> bool \<times> Server" where
  "isLLMConfigured env s =
     (case getLLMProvider env s of
        (Inr p, s') \<Rightarrow> (True, s')
      | (Inl e, s') \<Rightarrow> (False, s'))"

text \<open>\<^verbatim>\<open>complete\<close> of the service's index module.\<close>

definition complete ::
    "ProcessEnv \<Rightarrow> (HttpRequest \<Rightarrow> thrown + HttpResponse) \<Rightarrow> LLMMessage list
       \<Rightarrow> LLMCompletionOptions \<Rightarrow> Server \<Rightarrow> (thrown + LLMCompletionResponse) \<times> Server" where
  "complete env fetch msgs options s =
     (case getLLMProvider env s of
        (Inl e, s') \<Rightarrow> (Inl e, s')
      | (Inr p, s') \<Rightarrow> GitHubModelsProvider_complete fetch p msgs options s')"

section \<open>Analyzing a taste\<close>

text \<open>
  \<^verbatim>\<open>analyzeTaste(input)\<close>. The function \<^verbatim>\<open>complete\<close> that the module imports is the
  parameter \<open>llm\<close>: it runs in the state \<open>'s\<close> of whatever stands behind it and may throw.
\<close>

definition analyzeTaste ::
    "(LLMMessage list \<Rightarrow> LLMCompletionOptions \<Rightarrow> 's \<Rightarrow> (thrown + LLMCompletionResponse) \<times> 's)
       \<Rightarrow> (string \<Rightarrow> string + json) \<Rightarrow> TasteAnalysisInput \<Rightarrow> 's
       \<Rightarrow> (thrown + TasteAnalysisResult) \<times> 's" where
  "analyzeTaste llm JSON_parse input s =
     (if length (subscriptions input) = 0 \<and> length (likedVideos input) = 0 then
        (Inl (Error ''No YouTube data available to analyze. Please sync your YouTube data first.''), s)
      else
        let userPrompt = buildAnalysisPrompt input;
            msgs = [\<lparr> LLMMessage.role = system, LLMMessage.content = analyzer_SYSTEM_PROMPT \<rparr>,
                    \<lparr> LLMMessage.role = user, LLMMessage.content = userPrompt \<rparr>]
        in case llm msgs \<lparr> LLMCompletionOptions.temperature = Some (7 / 10), maxTokens = Some 2000,
                            topP = None, LLMCompletionOptions.stop = None \<rparr> s of
             (Inl e, s') \<Rightarrow> (Inl e, s')
           | (Inr response, s') \<Rightarrow>
               (parseAnalysisResponse JSON_parse (LLMCompletionResponse.content response), s'))"

section \<open>The route \<^verbatim>\<open>POST /api/analyze\<close>\<close>

text \<open>
  The database is a collaborator: the handler's queries are taken as given. The handler
  awaits its two selects together, with \<^verbatim>\<open>Promise.all\<close>; \<open>selectUserData\<close> is what that
  resolves to, the rows of the subscriptions and of the liked videos, or what it rejects
  with. The rows carry the columns the handler copies into the analysis input; \<open>'row\<close> is
  the row that the insert returns (\<open>None\<close> when it returns none). Authentication happens
  before the code modelled here.
\<close>

record 'row Database =
  selectUserData :: "thrown + ChannelData list \<times> VideoData list"
  deleteTasteProfile :: "thrown option"
  insertTasteProfile :: "TasteAnalysisResult \<Rightarrow> thrown + 'row option"

record 'row AnalyzeReply =
  profile :: 'row
  message :: string

text \<open>The body of the handler's \<^verbatim>\<open>try\<close> block.\<close>

definition analyzeTry ::
    "ProcessEnv \<Rightarrow> (HttpRequest \<Rightarrow> thrown + HttpResponse) \<Rightarrow> (string \<Rightarrow> string + json)
       \<Rightarrow> 'row Database \<Rightarrow> Server \<Rightarrow> (thrown + 'row AnalyzeReply) \<times> Server" where
  "analyzeTry env fetch JSON_parse db s =
     (case selectUserData db of
        Inl e \<Rightarrow> (Inl e, s)
      | Inr (userSubscriptions, userLikedVideos) \<Rightarrow>
          (if length userSubscriptions = 0 \<and> length userLikedVideos = 0 then
             (Inl (H3Error 400 ''No YouTube data found. Please sync your YouTube data first.''), s)
           else
             (case analyzeTaste (complete env fetch) JSON_parse
                     \<lparr> subscriptions = userSubscriptions, likedVideos = userLikedVideos \<rparr> s of
                (Inl e, s') \<Rightarrow> (Inl e, s')
              | (Inr result, s') \<Rightarrow>
                (case deleteTasteProfile db of
                   Some e \<Rightarrow> (Inl e, s')
                 | None \<Rightarrow>
                   (case insertTasteProfile db result of
                      Inl e \<Rightarrow> (Inl e, s')
                    | Inr None \<Rightarrow> (Inl (Error ''Failed to save taste profile''), s')
                    | Inr (Some newProfile) \<Rightarrow>
                        (Inr \<lparr> profile = newProfile,
                               message = ''Analyzed '' @ natToString (length userSubscriptions)
                                 @ '' subscriptions and '' @ natToString (length userLikedVideos)
                                 @ '' liked videos'' \<rparr>, s'))))))"

text \<open>The handler's \<^verbatim>\<open>catch\<close> block: what it throws for the error it caught.\<close>

definition analyzeCatch :: "thrown \<Rightarrow> thrown" where
  "analyzeCatch error =
     (case error of
        H3Error statusCode m \<Rightarrow> error
      | Error m \<Rightarrow> H3Error 500 m
      | NonError \<Rightarrow> H3Error 500 ''Failed to analyze taste profile'')"

definition analyzeHandler ::
    "ProcessEnv \<Rightarrow> (HttpRequest \<Rightarrow> thrown + HttpResponse) \<Rightarrow> (string \<Rightarrow> string + json)
       \<Rightarrow> 'row Database \<Rightarrow> Server \<Rightarrow> (thrown + 'row AnalyzeReply) \<times> Server" where
  "analyzeHandler env fetch JSON_parse db s =
     (case isLLMConfigured env s of
        (False, s1) \<Rightarrow>
          (Inl (H3Error 503 ''LLM service is not configured. Please set GITHUB_TOKEN environment variable.''), s1)
      | (True, s1) \<Rightarrow>
          (case analyzeTry env fetch JSON_parse db s1 of
             (Inr reply, s2) \<Rightarrow> (Inr reply, s2)
           | (Inl error, s2) \<Rightarrow>
               (Inl (analyzeCatch error), s2\<lparr>consoleErrors := consoleErrors s2 @ [error]\<rparr>)))"

section \<open>The recommender\<close>

text \<open>
  An array of categories lives in the heap and is passed by reference: the heap maps a
  reference to the array's present content. A taste profile holds the reference of its
  \<^verbatim>\<open>categories\<close> array.
\<close>

type_synonym ref = nat

type_synonym heap = "ref \<Rightarrow> TasteCategory list"

record TasteProfileInput =
  categories :: ref
  analysisSummary :: string

record RecommendationsInput =
  tasteProfile :: TasteProfileInput
  existingSubscriptions :: "string list"

definition recommender_SYSTEM_PROMPT :: string where
  "recommender_SYSTEM_PROMPT =
     ''You are an expert YouTube content curator and recommendation engine. Your task is to recommend YouTube channels based on a user's taste profile.\<newline>'' @
     ''\<newline>'' @
     ''You must respond with valid JSON only, no markdown formatting or code blocks.\<newline>'' @
     ''\<newline>'' @
     ''You will generate three types of recommendations:\<newline>'' @
     ''\<newline>'' @
     ''1. **Channel Recommendations** (type: \"channel\"): Popular, well-established channels that match the user's interests. These should be high-quality channels with significant followings.\<newline>'' @
     ''\<newline>'' @
     ''2. **Hidden Gems** (type: \"hidden_gem\"): Smaller, underrated channels (typically under 500K subscribers) that produce excellent content matching the user's tastes. These are channels they might not discover on their own.\<newline>'' @
     ''\<newline>'' @
     ''3. **Content Gaps** (type: \"content_gap\"): Topics or content areas that align with the user's interests but that they haven't explored yet. Suggest specific channels that could fill these gaps.\<newline>'' @
     ''\<newline>'' @
     ''For each recommendation, provide:\<newline>'' @
     ''- The actual YouTube channel name (be specific and accurate)\<newline>'' @
     ''- A personalized reason why this channel matches their tastes\<newline>'' @
     ''- The category it fits into\<newline>'' @
     ''- A confidence score (0.0-1.0) indicating how well it matches their profile''"

definition recommender_USER_PROMPT_TEMPLATE :: string where
  "recommender_USER_PROMPT_TEMPLATE =
     ''Based on this user's taste profile, generate personalized YouTube channel recommendations.\<newline>'' @
     ''\<newline>'' @
     ''## User's Taste Profile\<newline>'' @
     ''\<newline>'' @
     ''### Summary\<newline>'' @
     ''{{analysisSummary}}\<newline>'' @
     ''\<newline>'' @
     ''### Categories (by importance)\<newline>'' @
     ''{{categories}}\<newline>'' @
     ''\<newline>'' @
     ''### Channels to EXCLUDE (user already subscribed)\<newline>'' @
     ''{{existingSubscriptions}}\<newline>'' @
     ''\<newline>'' @
     ''Generate recommendations in this JSON format:\<newline>'' @
     ''{\<newline>'' @
     ''  \"recommendations\": [\<newline>'' @
     ''    {\<newline>'' @
     ''      \"type\": \"channel\",\<newline>'' @
     ''      \"channelTitle\": \"Exact YouTube Channel Name\",\<newline>'' @
     ''      \"reason\": \"Personalized reason based on their specific interests\",\<newline>'' @
     ''      \"category\": \"Category Name\",\<newline>'' @
     ''      \"confidenceScore\": 0.85\<newline>'' @
     ''    },\<newline>'' @
     ''    {\<newline>'' @
     ''      \"type\": \"hidden_gem\",\<newline>'' @
     ''      \"channelTitle\": \"Smaller Channel Name\",\<newline>'' @
     ''      \"reason\": \"Why this underrated channel is perfect for them\",\<newline>'' @
     ''      \"category\": \"Category Name\",\<newline>'' @
     ''      \"confidenceScore\": 0.75\<newline>'' @
     ''    },\<newline>'' @
     ''    {\<newline>'' @
     ''      \"type\": \"content_gap\",\<newline>'' @
     ''      \"channelTitle\": \"Channel Name\",\<newline>'' @
     ''      \"reason\": \"How this expands their interests into new territory\",\<newline>'' @
     ''      \"category\": \"New Category\",\<newline>'' @
     ''      \"confidenceScore\": 0.70\<newline>'' @
     ''    }\<newline>'' @
     ''  ]\<newline>'' @
     ''}\<newline>'' @
     ''\<newline>'' @
     ''Requirements:\<newline>'' @
     ''- Generate 3-5 \"channel\" recommendations (popular channels)\<newline>'' @
     ''- Generate 2-3 \"hidden_gem\" recommendations (smaller channels)\<newline>'' @
     ''- Generate 2-3 \"content_gap\" recommendations (new areas to explore)\<newline>'' @
     ''- Use REAL YouTube channel names that actually exist\<newline>'' @
     ''- Do NOT recommend any channels from the exclude list\<newline>'' @
     ''- Make reasons specific and personalized, not generic\<newline>'' @
     ''- Confidence scores should reflect how well the channel matches their profile''"


text \<open>
  \<^verbatim>\<open>Array.prototype.sort(compareFn)\<close> sorts the array in place and is stable: \<open>x\<close>
  comes before \<open>y\<close> when \<open>compareFn x y < 0\<close>, and elements that compare equal keep their
  order. The model is insertion sort, which has these two properties.
\<close>

fun insertSorted :: "('a \<Rightarrow> 'a \<Rightarrow> real) \<Rightarrow> 'a \<Rightarrow> 'a list \<Rightarrow> 'a list" where
  "insertSorted compareFn x [] = [x]"
| "insertSorted compareFn x (y # ys) =
     (if compareFn x y \<le> 0 then x # y # ys else y # insertSorted compareFn x ys)"

definition arraySort :: "('a \<Rightarrow> 'a \<Rightarrow> real) \<Rightarrow> 'a list \<Rightarrow> 'a list" where
  "arraySort compareFn xs = foldr (insertSorted compareFn) xs []"

text \<open>\<^verbatim>\<open>Math.round(x)\<close>: the nearest integer, a half rounded up.\<close>

definition Math_round :: "real \<Rightarrow> int" where
  "Math_round x = \<lfloor>x + 1 / 2\<rfloor>"

text \<open>
  A weight is a double, that is a real number among those a double can hold. The product
  of two doubles is rounded to a double by the machine, so it is not the product of the
  reals: it is the runtime's, the parameter \<open>multiply\<close>, as is the exponent form in which
  a large number prints.
\<close>

record Runtime =
  multiply :: "real \<Rightarrow> real \<Rightarrow> real"
  exponentForm :: "int \<Rightarrow> string"

text \<open>The callback of \<^verbatim>\<open>.map\<close> in \<^verbatim>\<open>formatCategories\<close>: the line of one category.\<close>

definition categoryLine :: "Runtime \<Rightarrow> TasteCategory \<Rightarrow> string" where
  "categoryLine rt cat =
     (let percent = Math_round (multiply rt (weight cat) 100);
          subs = (case subCategories cat of
                    None \<Rightarrow> []
                  | Some [] \<Rightarrow> []
                  | Some (x # xs) \<Rightarrow> '' ('' @ join '', '' (x # xs) @ '')'')
      in ''- '' @ name cat @ '' ('' @ numberToString (exponentForm rt) percent @ ''%): ''
           @ description cat @ subs)"

text \<open>\<^verbatim>\<open>formatCategories(categories)\<close>: the argument is the reference of the caller's
  array; \<^verbatim>\<open>sort\<close> writes the sorted content back to it, \<^verbatim>\<open>map\<close> makes a new array.
  The sign of the difference of two doubles is the sign of the difference of the reals.\<close>

definition formatCategories :: "Runtime \<Rightarrow> ref \<Rightarrow> heap \<Rightarrow> string \<times> heap" where
  "formatCategories rt categoriesRef h =
     (let sorted = arraySort (\<lambda>a b. weight b - weight a) (h categoriesRef);
          h' = h(categoriesRef := sorted)
      in (join ''\<newline>'' (map (categoryLine rt) sorted), h'))"

definition formatExclusions :: "string list \<Rightarrow> nat \<Rightarrow> string" where
  "formatExclusions subs maxItems =
     (if length subs = 0 then ''None'' else join '', '' (take maxItems subs))"

definition buildPrompt :: "Runtime \<Rightarrow> RecommendationsInput \<Rightarrow> heap \<Rightarrow> string \<times> heap" where
  "buildPrompt rt input h =
     (case formatCategories rt (TasteProfileInput.categories (tasteProfile input)) h of
        (categoriesText, h') \<Rightarrow>
          (let exclusionsText = formatExclusions (existingSubscriptions input) 100
           in (jsReplace
                 (jsReplace
                    (jsReplace recommender_USER_PROMPT_TEMPLATE
                       ''{{analysisSummary}}'' (TasteProfileInput.analysisSummary (tasteProfile input)))
                    ''{{categories}}'' categoriesText)
                 ''{{existingSubscriptions}}'' exclusionsText, h')))"

text \<open>\<^verbatim>\<open>generateRecommendations(input)\<close>, with the imported \<^verbatim>\<open>complete\<close> as the
  parameter \<open>llm\<close>.\<close>

definition generateRecommendations ::
    "Runtime
       \<Rightarrow> (LLMMessage list \<Rightarrow> LLMCompletionOptions \<Rightarrow> 's \<Rightarrow> (thrown + LLMCompletionResponse) \<times> 's)
       \<Rightarrow> (string \<Rightarrow> string + json) \<Rightarrow> RecommendationsInput \<Rightarrow> heap \<Rightarrow> 's
       \<Rightarrow> (thrown + RecommendationsResult) \<times> heap \<times> 's" where
  "generateRecommendations rt llm JSON_parse input h s =
     (if length (h (TasteProfileInput.categories (tasteProfile input))) = 0 then
        (Inl (Error ''No taste profile available. Please analyze your tastes first.''), h, s)
      else
        case buildPrompt rt input h of
          (userPrompt, h') \<Rightarrow>
            (let msgs = [\<lparr> LLMMessage.role = system, LLMMessage.content = recommender_SYSTEM_PROMPT \<rparr>,
                         \<lparr> LLMMessage.role = user, LLMMessage.content = userPrompt \<rparr>]
             in case llm msgs \<lparr> LLMCompletionOptions.temperature = Some (8 / 10), maxTokens = Some 3000,
                                 topP = None, LLMCompletionOptions.stop = None \<rparr> s of
                  (Inl e, s') \<Rightarrow> (Inl e, h', s')
                | (Inr response, s') \<Rightarrow>
                    (parseRecommendationsResponse JSON_parse (LLMCompletionResponse.content response),
                     h', s')))"

section \<open>The words of the specification\<close>

text \<open>
  The definitions of this section are not taken from the source. They write down what the
  specification says about an entry of a reply, so that the parsers can be compared with it.
\<close>

text \<open>The weight of a category entry after clamping to the interval from 0 to 1.\<close>

definition spec_clampedWeight :: "json \<Rightarrow> real" where
  "spec_clampedWeight cat =
     (case asNumber (getProp cat ''weight'') of None \<Rightarrow> 0 | Some w \<Rightarrow> max 0 (min 1 w))"

text \<open>A category entry is well shaped: an object with a string \<open>name\<close>, a number
  \<open>weight\<close> and a string \<open>description\<close>.\<close>

definition spec_wellShaped :: "json \<Rightarrow> bool" where
  "spec_wellShaped c =
     (isObject c \<and> asString (getProp c ''name'') \<noteq> None
      \<and> asNumber (getProp c ''weight'') \<noteq> None
      \<and> asString (getProp c ''description'') \<noteq> None)"

text \<open>A recommendation entry is skipped: it is not an object, or its \<open>channelTitle\<close> or
  its \<open>reason\<close> is missing, not a string, or empty.\<close>

definition spec_skipped :: "json \<Rightarrow> bool" where
  "spec_skipped e =
     (\<not> isObject e
      \<or> \<not> nonEmptyString (getProp e ''channelTitle'')
      \<or> \<not> nonEmptyString (getProp e ''reason''))"

text \<open>The item made from an entry that is kept, with the documented defaults. The
  specification is silent on an empty \<open>category\<close>; here it becomes \<open>General\<close> too.\<close>

definition spec_item :: "json \<Rightarrow> RecommendationItem" where
  "spec_item e =
     \<lparr> type = (case asString (getProp e ''type'') of
                 None \<Rightarrow> ''channel''
               | Some t \<Rightarrow> if t = ''channel'' \<or> t = ''hidden_gem'' \<or> t = ''content_gap''
                          then t else ''channel''),
       channelTitle = castString (getProp e ''channelTitle''),
       channelId = asString (getProp e ''channelId''),
       reason = castString (getProp e ''reason''),
       category = (case asString (getProp e ''category'') of
                     None \<Rightarrow> ''General''
                   | Some c \<Rightarrow> if c = [] then ''General'' else c),
       confidenceScore = (case asNumber (getProp e ''confidenceScore'') of
                            None \<Rightarrow> 7 / 10
                          | Some n \<Rightarrow> max 0 (min 1 n)),
       subscriberCount = asNumber (getProp e ''subscriberCount'') \<rparr>"

section \<open>Sample data\<close>

text \<open>Replies of the model used in the examples, with the values that \<^verbatim>\<open>JSON.parse\<close>
  gives for them; \<open>sampleParse\<close> is \<^verbatim>\<open>JSON.parse\<close> on these texts.\<close>

definition replyEmptyCategories :: string where
  "replyEmptyCategories =
     ''{\"categories\":[],\"analysisSummary\":\"s\"}''"

definition replyTwoCategories :: string where
  "replyTwoCategories =
     ''{\"categories\":[{\"name\":\"Tech\",\"weight\":0.5,\"description\":\"x\"},{\"name\":\"Games\",\"weight\":1.5,\"description\":\"y\",\"subCategories\":[\"a\",1]}],\"analysisSummary\":\"s\"}''"

definition replyZeroWeights :: string where
  "replyZeroWeights =
     ''{\"categories\":[{\"name\":\"Tech\",\"weight\":0,\"description\":\"x\"},{\"name\":\"Games\",\"weight\":-2,\"description\":\"y\"}],\"analysisSummary\":\"s\"}''"

definition replyBadEntry :: string where
  "replyBadEntry =
     ''{\"categories\":[{\"name\":\"Tech\",\"weight\":1,\"description\":\"x\"},{\"name\":\"Games\",\"description\":\"y\"}],\"analysisSummary\":\"s\"}''"

definition replyOneRecommendation :: string where
  "replyOneRecommendation =
     ''{\"recommendations\":[{\"type\":\"bogus\",\"channelTitle\":\"A\",\"reason\":\"r\"},7,{\"channelTitle\":\"B\"}]}''"

definition replyNoRecommendation :: string where
  "replyNoRecommendation =
     ''{\"recommendations\":[{\"type\":\"channel\"},{\"channelTitle\":\"Test\"}]}''"

definition valueEmptyCategories :: json where
  "valueEmptyCategories = JObj [(''categories'', JArr []), (''analysisSummary'', JStr ''s'')]"

definition entriesTwoCategories :: "json list" where
  "entriesTwoCategories =
     [JObj [(''name'', JStr ''Tech''), (''weight'', JNum (1 / 2)), (''description'', JStr ''x'')],
      JObj [(''name'', JStr ''Games''), (''weight'', JNum (3 / 2)), (''description'', JStr ''y''),
            (''subCategories'', JArr [JStr ''a'', JNum 1])]]"

definition valueTwoCategories :: json where
  "valueTwoCategories =
     JObj [(''categories'', JArr entriesTwoCategories), (''analysisSummary'', JStr ''s'')]"

definition entriesZeroWeights :: "json list" where
  "entriesZeroWeights =
     [JObj [(''name'', JStr ''Tech''), (''weight'', JNum 0), (''description'', JStr ''x'')],
      JObj [(''name'', JStr ''Games''), (''weight'', JNum (- 2)), (''description'', JStr ''y'')]]"

definition valueZeroWeights :: json where
  "valueZeroWeights =
     JObj [(''categories'', JArr entriesZeroWeights), (''analysisSummary'', JStr ''s'')]"

definition entriesBadEntry :: "json list" where
  "entriesBadEntry =
     [JObj [(''name'', JStr ''Tech''), (''weight'', JNum 1), (''description'', JStr ''x'')],
      JObj [(''name'', JStr ''Games''), (''description'', JStr ''y'')]]"

definition valueBadEntry :: json where
  "valueBadEntry =
     JObj [(''categories'', JArr entriesBadEntry), (''analysisSummary'', JStr ''s'')]"

definition entriesOneRecommendation :: "json list" where
  "entriesOneRecommendation =
     [JObj [(''type'', JStr ''bogus''), (''channelTitle'', JStr ''A''), (''reason'', JStr ''r'')],
      JNum 7,
      JObj [(''channelTitle'', JStr ''B'')]]"

definition valueOneRecommendation :: json where
  "valueOneRecommendation = JObj [(''recommendations'', JArr entriesOneRecommendation)]"

definition entriesNoRecommendation :: "json list" where
  "entriesNoRecommendation =
     [JObj [(''type'', JStr ''channel'')], JObj [(''channelTitle'', JStr ''Test'')]]"

definition valueNoRecommendation :: json where
  "valueNoRecommendation = JObj [(''recommendations'', JArr entriesNoRecommendation)]"

definition sampleParse :: "string \<Rightarrow> string + json" where
  "sampleParse s =
     (if s = replyEmptyCategories then Inr valueEmptyCategories
      else if s = replyTwoCategories then Inr valueTwoCategories
      else if s = replyZeroWeights then Inr valueZeroWeights
      else if s = replyBadEntry then Inr valueBadEntry
      else if s = replyOneRecommendation then Inr valueOneRecommendation
      else if s = replyNoRecommendation then Inr valueNoRecommendation
      else Inl ''SyntaxError: Unexpected token'')"

text \<open>Three categories: the second is the heaviest, the first and the third weigh the same.\<close>

definition sampleCategories :: "TasteCategory list" where
  "sampleCategories =
     [\<lparr> name = ''Low'', weight = 1 / 10, description = ''l'', subCategories = None \<rparr>,
      \<lparr> name = ''High'', weight = 5 / 10, description = ''h'', subCategories = Some [''a'', ''b''] \<rparr>,
      \<lparr> name = ''Also'', weight = 1 / 10, description = ''m'', subCategories = Some [] \<rparr>]"


definition sampleRuntime :: Runtime where
  "sampleRuntime =
     \<lparr> multiply = (\<lambda>x y. if x = 1080863910568919 / 72057594037927936 \<and> y = 100
                          then 3 / 2 else x * y),
       exponentForm = (\<lambda>i. if i = 10 ^ 21 then ''1e+21'' else ''exponent form'') \<rparr>"

definition sampleInput :: RecommendationsInput where
  "sampleInput =
     \<lparr> tasteProfile = \<lparr> TasteProfileInput.categories = 0,
                        TasteProfileInput.analysisSummary = ''s'' \<rparr>,
       existingSubscriptions = [] \<rparr>"

text \<open>A server with a token, a network whose provider answers 429 with an error body, a
  database holding one subscription, and a server process that has not served yet.\<close>

definition sampleEnv :: ProcessEnv where
  "sampleEnv = \<lparr> GITHUB_TOKEN = Some ''t'', GITHUB_MODEL = None \<rparr>"

definition rejectedReply :: HttpResponse where
  "rejectedReply =
     \<lparr> ok = False, status = 429, bodyText = ''quota exceeded for org acme'',
       bodyJson = Inl NonError \<rparr>"

definition sampleDatabase :: "unit Database" where
  "sampleDatabase =
     \<lparr> selectUserData =
         Inr ([\<lparr> ChannelData.channelTitle = ''A'', channelDescription = None,
                 ChannelData.subscriberCount = None, videoCount = None \<rparr>], []),
       deleteTasteProfile = None,
       insertTasteProfile = (\<lambda>result. Inr (Some ())) \<rparr>"

definition freshServer :: Server where
  "freshServer = \<lparr> cachedProvider = None, requests = [], consoleErrors = [] \<rparr>"

section \<open>Properties of the analysis parser\<close>

lemma natToString_digit: "n < 10 \<Longrightarrow> natToString n = [digitChar n]"
  by (simp add: natToString.simps)

lemma foldl_weight_sum:
  "foldl (\<lambda>sum cat. sum + weight cat) a cs = a + sum_list (map weight cs)"
  by (induction cs arbitrary: a) simp_all

lemma sum_list_weight_div:
  "sum_list (map weight (map (\<lambda>cat. cat\<lparr>weight := weight cat / t\<rparr>) cs))
     = sum_list (map weight cs) / t"
  by (induction cs) (simp_all add: add_divide_distrib)

lemma getProp_isObject: "getProp x k = Some v \<Longrightarrow> isObject x"
  by (cases x) simp_all

text \<open>Once the reply parses to an object with a \<open>categories\<close> array and a string
  \<open>analysisSummary\<close>, the result is decided by the entries.\<close>

lemma parseAnalysisResponse_reached:
  assumes "JSON_parse (extractJson reply) = Inr parsed"
    and "getProp parsed ''categories'' = Some (JArr cats)"
    and "getProp parsed ''analysisSummary'' = Some (JStr summary)"
  shows "parseAnalysisResponse JSON_parse reply =
     (case mapCategories cats 0 of
        Inl e \<Rightarrow> Inl e
      | Inr cs \<Rightarrow>
          Inr \<lparr> TasteAnalysisResult.categories =
                  (if sum_list (map weight cs) > 0
                   then map (\<lambda>cat. cat\<lparr>weight := weight cat / sum_list (map weight cs)\<rparr>) cs
                   else cs),
                TasteAnalysisResult.analysisSummary = summary \<rparr>)"
proof -
  from assms(2) have "isObject parsed" by (rule getProp_isObject)
  then show ?thesis
    using assms
    by (simp add: parseAnalysisResponse_def foldl_weight_sum Let_def split: sum.splits)
qed

lemma validateCategory_weight:
  "validateCategory cat i = Inr c \<Longrightarrow> weight c = spec_clampedWeight cat"
  by (auto simp: validateCategory_def spec_clampedWeight_def clamp01_def
      split: if_splits option.splits)

lemma mapCategories_weights:
  "mapCategories cats i = Inr cs \<Longrightarrow> map weight cs = map spec_clampedWeight cats"
  by (induction cats arbitrary: i cs) (auto split: sum.splits dest: validateCategory_weight)

lemma spec_clampedWeight_nonneg: "0 \<le> spec_clampedWeight cat"
  by (simp add: spec_clampedWeight_def split: option.splits)

lemma sum_clamped_nonneg: "0 \<le> sum_list (map spec_clampedWeight cats)"
  by (induction cats) (simp_all add: spec_clampedWeight_nonneg)

lemma parseAnalysisResponse_weights:
  assumes p: "JSON_parse (extractJson reply) = Inr parsed"
    and c: "getProp parsed ''categories'' = Some (JArr cats)"
    and r: "parseAnalysisResponse JSON_parse reply = Inr res"
  shows "map weight (TasteAnalysisResult.categories res) =
           (if sum_list (map spec_clampedWeight cats) = 0 then map spec_clampedWeight cats
            else map (\<lambda>w. w / sum_list (map spec_clampedWeight cats)) (map spec_clampedWeight cats))"
proof -
  from c have o: "isObject parsed" by (rule getProp_isObject)
  from p c o r obtain summary where s: "getProp parsed ''analysisSummary'' = Some (JStr summary)"
    by (cases "getProp parsed ''analysisSummary''" rule: asString.cases)
       (auto simp: parseAnalysisResponse_def)
  note reached = parseAnalysisResponse_reached[of JSON_parse reply parsed cats summary, OF p c s]
  from r reached obtain cs where m: "mapCategories cats 0 = Inr cs"
    by (cases "mapCategories cats 0") auto
  have w: "map weight cs = map spec_clampedWeight cats" using m by (rule mapCategories_weights)
  have nn: "0 \<le> sum_list (map weight cs)" using sum_clamped_nonneg[of cats] w by simp
  have res: "TasteAnalysisResult.categories res =
               (if sum_list (map weight cs) > 0
                then map (\<lambda>cat. cat\<lparr>weight := weight cat / sum_list (map weight cs)\<rparr>) cs
                else cs)"
    using r reached m by auto
  show ?thesis
  proof (cases "sum_list (map weight cs) = 0")
    case True
    then show ?thesis using res w by simp
  next
    case False
    with nn have "sum_list (map weight cs) > 0" by simp
    then have "map weight (TasteAnalysisResult.categories res)
                 = map (\<lambda>w. w / sum_list (map weight cs)) (map weight cs)"
      using res by (simp add: comp_def)
    then show ?thesis using False w by simp
  qed
qed

lemma sum_list_div: "sum_list (map (\<lambda>w. w / t) ws) = sum_list ws / (t::real)"
  by (induction ws) (simp_all add: add_divide_distrib)

text \<open>
  Claim C1. For every category list that \<open>parseAnalysisResponse\<close> returns, the weights sum
  to 1 within \<open>10\<^sup>-\<^sup>9\<close>, unless the clamped weights of the entries sum to exactly 0; then the
  returned weights are the clamped weights, unchanged. Numbers are real numbers here, so
  the sum is exactly 1 and the tolerance is not needed.
\<close>

theorem parseAnalysisResponse_weights_normalized:
  assumes "JSON_parse (extractJson reply) = Inr parsed"
    and "getProp parsed ''categories'' = Some (JArr cats)"
    and "parseAnalysisResponse JSON_parse reply = Inr res"
  shows "(sum_list (map spec_clampedWeight cats) \<noteq> 0 \<longrightarrow>
            \<bar>sum_list (map weight (TasteAnalysisResult.categories res)) - 1\<bar> \<le> 1 / 10 ^ 9)
       \<and> (sum_list (map spec_clampedWeight cats) = 0 \<longrightarrow>
            map weight (TasteAnalysisResult.categories res) = map spec_clampedWeight cats)"
proof -
  let ?ws = "map spec_clampedWeight cats"
  note w = parseAnalysisResponse_weights[of JSON_parse reply parsed cats res, OF assms]
  show ?thesis
  proof (cases "sum_list ?ws = 0")
    case True
    then show ?thesis using w by simp
  next
    case False
    then have "map weight (TasteAnalysisResult.categories res) = map (\<lambda>w. w / sum_list ?ws) ?ws"
      using w by simp
    then have "sum_list (map weight (TasteAnalysisResult.categories res)) = sum_list ?ws / sum_list ?ws"
      by (simp only: sum_list_div)
    then have "sum_list (map weight (TasteAnalysisResult.categories res)) = 1"
      using False by simp
    then show ?thesis using False by simp
  qed
qed

lemma extractJson_replyTwoCategories: "extractJson replyTwoCategories = replyTwoCategories"
  by (simp add: extractJson_def trim_def isWhiteSpace_def startsWith_def replyTwoCategories_def)

lemma extractJson_replyZeroWeights: "extractJson replyZeroWeights = replyZeroWeights"
  by (simp add: extractJson_def trim_def isWhiteSpace_def startsWith_def replyZeroWeights_def)

lemma extractJson_replyBadEntry: "extractJson replyBadEntry = replyBadEntry"
  by (simp add: extractJson_def trim_def isWhiteSpace_def startsWith_def replyBadEntry_def)

lemma extractJson_replyEmptyCategories: "extractJson replyEmptyCategories = replyEmptyCategories"
  by (simp add: extractJson_def trim_def isWhiteSpace_def startsWith_def replyEmptyCategories_def)

lemma sampleParse_replyEmptyCategories: "sampleParse replyEmptyCategories = Inr valueEmptyCategories"
  by (simp add: sampleParse_def)

lemma sampleParse_replyTwoCategories: "sampleParse replyTwoCategories = Inr valueTwoCategories"
  by (simp add: sampleParse_def replyTwoCategories_def replyEmptyCategories_def)

lemma sampleParse_replyZeroWeights: "sampleParse replyZeroWeights = Inr valueZeroWeights"
  by (simp add: sampleParse_def replyZeroWeights_def replyTwoCategories_def replyEmptyCategories_def)

lemma sampleParse_replyBadEntry: "sampleParse replyBadEntry = Inr valueBadEntry"
  by (simp add: sampleParse_def replyBadEntry_def replyZeroWeights_def replyTwoCategories_def
        replyEmptyCategories_def)

lemma mapCategories_entriesTwoCategories:
  "mapCategories entriesTwoCategories 0 =
     Inr [\<lparr> name = ''Tech'', weight = 1 / 2, description = ''x'', subCategories = None \<rparr>,
          \<lparr> name = ''Games'', weight = 1, description = ''y'', subCategories = Some [''a''] \<rparr>]"
  by (simp add: entriesTwoCategories_def validateCategory_def clamp01_def filterStrings_def
        List.map_filter_simps)

lemma mapCategories_entriesZeroWeights:
  "mapCategories entriesZeroWeights 0 =
     Inr [\<lparr> name = ''Tech'', weight = 0, description = ''x'', subCategories = None \<rparr>,
          \<lparr> name = ''Games'', weight = 0, description = ''y'', subCategories = None \<rparr>]"
  by (simp add: entriesZeroWeights_def validateCategory_def clamp01_def)

lemma parse_replyTwoCategories:
  "parseAnalysisResponse sampleParse replyTwoCategories =
     Inr \<lparr> TasteAnalysisResult.categories =
             [\<lparr> name = ''Tech'', weight = 1 / 3, description = ''x'', subCategories = None \<rparr>,
              \<lparr> name = ''Games'', weight = 2 / 3, description = ''y'', subCategories = Some [''a''] \<rparr>],
           TasteAnalysisResult.analysisSummary = ''s'' \<rparr>"
  by (simp add: parseAnalysisResponse_reached[of sampleParse replyTwoCategories valueTwoCategories
          entriesTwoCategories "''s''"]
        extractJson_replyTwoCategories sampleParse_replyTwoCategories valueTwoCategories_def
        mapCategories_entriesTwoCategories)

lemma parse_replyZeroWeights:
  "parseAnalysisResponse sampleParse replyZeroWeights =
     Inr \<lparr> TasteAnalysisResult.categories =
             [\<lparr> name = ''Tech'', weight = 0, description = ''x'', subCategories = None \<rparr>,
              \<lparr> name = ''Games'', weight = 0, description = ''y'', subCategories = None \<rparr>],
           TasteAnalysisResult.analysisSummary = ''s'' \<rparr>"
  by (simp add: parseAnalysisResponse_reached[of sampleParse replyZeroWeights valueZeroWeights
          entriesZeroWeights "''s''"]
        extractJson_replyZeroWeights sampleParse_replyZeroWeights valueZeroWeights_def
        mapCategories_entriesZeroWeights)

theorem parseAnalysisResponse_weights_normalized_witness:
  "(\<exists>res. parseAnalysisResponse sampleParse replyTwoCategories = Inr res
        \<and> sum_list (map spec_clampedWeight entriesTwoCategories) = 3 / 2
        \<and> map weight (TasteAnalysisResult.categories res) = [1 / 3, 2 / 3]
        \<and> \<bar>sum_list (map weight (TasteAnalysisResult.categories res)) - 1\<bar> \<le> 1 / 10 ^ 9)
   \<and> (\<exists>res. parseAnalysisResponse sampleParse replyZeroWeights = Inr res
        \<and> sum_list (map spec_clampedWeight entriesZeroWeights) = 0
        \<and> map weight (TasteAnalysisResult.categories res) = [0, 0])"
proof -
  have two: "sum_list (map spec_clampedWeight entriesTwoCategories) = 3 / 2"
    by (simp add: entriesTwoCategories_def spec_clampedWeight_def)
  have zero: "sum_list (map spec_clampedWeight entriesZeroWeights) = 0"
    by (simp add: entriesZeroWeights_def spec_clampedWeight_def)
  have zeros: "map spec_clampedWeight entriesZeroWeights = [0, 0]"
    by (simp add: entriesZeroWeights_def spec_clampedWeight_def)
  have a: "sampleParse (extractJson replyTwoCategories) = Inr valueTwoCategories"
    by (simp add: extractJson_replyTwoCategories sampleParse_replyTwoCategories)
  have b: "getProp valueTwoCategories ''categories'' = Some (JArr entriesTwoCategories)"
    by (simp add: valueTwoCategories_def)
  have c: "sampleParse (extractJson replyZeroWeights) = Inr valueZeroWeights"
    by (simp add: extractJson_replyZeroWeights sampleParse_replyZeroWeights)
  have d: "getProp valueZeroWeights ''categories'' = Some (JArr entriesZeroWeights)"
    by (simp add: valueZeroWeights_def)
  note t1 = parseAnalysisResponse_weights_normalized[of sampleParse replyTwoCategories
              valueTwoCategories entriesTwoCategories, OF a b parse_replyTwoCategories]
  note t2 = parseAnalysisResponse_weights_normalized[of sampleParse replyZeroWeights
              valueZeroWeights entriesZeroWeights, OF c d parse_replyZeroWeights]
  have first: "\<exists>res. parseAnalysisResponse sampleParse replyTwoCategories = Inr res
        \<and> sum_list (map spec_clampedWeight entriesTwoCategories) = 3 / 2
        \<and> map weight (TasteAnalysisResult.categories res) = [1 / 3, 2 / 3]
        \<and> \<bar>sum_list (map weight (TasteAnalysisResult.categories res)) - 1\<bar> \<le> 1 / 10 ^ 9"
    using t1 two parse_replyTwoCategories by simp
  have second: "\<exists>res. parseAnalysisResponse sampleParse replyZeroWeights = Inr res
        \<and> sum_list (map spec_clampedWeight entriesZeroWeights) = 0
        \<and> map weight (TasteAnalysisResult.categories res) = [0, 0]"
    using t2 zero zeros parse_replyZeroWeights by simp
  show ?thesis
    using first second by (rule conjI)
qed

lemma validateCategory_wellShaped:
  "spec_wellShaped c \<Longrightarrow>
   \<exists>x. validateCategory c i = Inr x
     \<and> subCategories x = map_option filterStrings (asArray (getProp c ''subCategories''))"
  by (auto simp: spec_wellShaped_def validateCategory_def)

text \<open>The first entry that fails ends the whole \<open>map\<close> with its error.\<close>

lemma mapCategories_first_bad:
  "i < length cats \<Longrightarrow> \<forall>j<i. spec_wellShaped (cats ! j)
     \<Longrightarrow> validateCategory (cats ! i) (k + i) = Inl e
     \<Longrightarrow> mapCategories cats k = Inl e"
proof (induction cats arbitrary: i k)
  case Nil
  then show ?case by simp
next
  case (Cons c cats)
  show ?case
  proof (cases i)
    case 0
    with Cons.prems show ?thesis by simp
  next
    case (Suc i')
    from Cons.prems(2) Suc have "spec_wellShaped c" by auto
    then obtain x where x: "validateCategory c k = Inr x"
      using validateCategory_wellShaped by blast
    have "mapCategories cats (Suc k) = Inl e"
    proof (rule Cons.IH[of i'])
      show "i' < length cats" using Cons.prems(1) Suc by simp
      show "\<forall>j<i'. spec_wellShaped (cats ! j)" using Cons.prems(2) Suc by auto
      show "validateCategory (cats ! i') (Suc k + i') = Inl e" using Cons.prems(3) Suc by simp
    qed
    then show ?thesis using x by simp
  qed
qed

lemma mapCategories_all_wellShaped:
  "\<forall>c\<in>set cats. spec_wellShaped c \<Longrightarrow>
   \<exists>cs. mapCategories cats k = Inr cs
      \<and> map subCategories cs
           = map (\<lambda>c. map_option filterStrings (asArray (getProp c ''subCategories''))) cats"
proof (induction cats arbitrary: k)
  case Nil
  then show ?case by simp
next
  case (Cons c cats)
  then obtain x where x: "validateCategory c k = Inr x"
     "subCategories x = map_option filterStrings (asArray (getProp c ''subCategories''))"
    using validateCategory_wellShaped[of c k] by auto
  from Cons obtain cs where cs: "mapCategories cats (Suc k) = Inr cs"
     "map subCategories cs
        = map (\<lambda>c. map_option filterStrings (asArray (getProp c ''subCategories''))) cats"
    by (metis list.set_intros(2))
  show ?case using x cs by simp
qed

lemma filterStrings_comprehension: "filterStrings xs = [s. JStr s \<leftarrow> xs]"
proof (induction xs)
  case Nil
  show ?case by (simp add: filterStrings_def List.map_filter_simps)
next
  case (Cons x xs)
  then show ?case by (cases x) (simp_all add: filterStrings_def List.map_filter_simps)
qed

text \<open>
  Claim C2. In \<open>parseAnalysisResponse\<close>, the entries of \<open>categories\<close> are checked in index
  order. At the first entry \<open>i\<close> that is not well shaped, parsing fails with an error that
  names \<open>i\<close>: \<open>Category i is not an object\<close> when the entry is not an object, and \<open>Category i
  missing name\<close>, \<open>missing weight\<close> or \<open>missing description\<close> when that field does not have its
  type. When every entry is well shaped parsing succeeds, whatever \<open>subCategories\<close> holds:
  an array there is kept with its string elements only, anything else gives no list.
\<close>

theorem parseAnalysisResponse_entry_validation:
  assumes "JSON_parse (extractJson reply) = Inr parsed"
    and "getProp parsed ''categories'' = Some (JArr cats)"
    and "getProp parsed ''analysisSummary'' = Some (JStr summary)"
  shows "(\<forall>i<length cats. (\<forall>j<i. spec_wellShaped (cats ! j)) \<longrightarrow>
            (\<not> isObject (cats ! i) \<longrightarrow>
               parseAnalysisResponse JSON_parse reply
                 = Inl (Error (''Category '' @ natToString i @ '' is not an object'')))
          \<and> (isObject (cats ! i) \<and> asString (getProp (cats ! i) ''name'') = None \<longrightarrow>
               parseAnalysisResponse JSON_parse reply
                 = Inl (Error (''Category '' @ natToString i @ '' missing name'')))
          \<and> (isObject (cats ! i) \<and> asString (getProp (cats ! i) ''name'') \<noteq> None
               \<and> asNumber (getProp (cats ! i) ''weight'') = None \<longrightarrow>
               parseAnalysisResponse JSON_parse reply
                 = Inl (Error (''Category '' @ natToString i @ '' missing weight'')))
          \<and> (isObject (cats ! i) \<and> asString (getProp (cats ! i) ''name'') \<noteq> None
               \<and> asNumber (getProp (cats ! i) ''weight'') \<noteq> None
               \<and> asString (getProp (cats ! i) ''description'') = None \<longrightarrow>
               parseAnalysisResponse JSON_parse reply
                 = Inl (Error (''Category '' @ natToString i @ '' missing description''))))
       \<and> ((\<forall>c\<in>set cats. spec_wellShaped c) \<longrightarrow>
            (\<exists>res. parseAnalysisResponse JSON_parse reply = Inr res
               \<and> map subCategories (TasteAnalysisResult.categories res)
                   = map (\<lambda>c. map_option (\<lambda>xs. [s. JStr s \<leftarrow> xs])
                                 (asArray (getProp c ''subCategories'')))
                       cats))"
proof (intro conjI allI impI)
  fix i
  assume i: "i < length cats" and prev: "\<forall>j<i. spec_wellShaped (cats ! j)"
  note reached = parseAnalysisResponse_reached[of JSON_parse reply parsed cats summary, OF assms]
  have fail: "parseAnalysisResponse JSON_parse reply = Inl e"
    if "validateCategory (cats ! i) i = Inl e" for e
    using mapCategories_first_bad[OF i prev, of 0 e] that by (simp add: reached)
  {
    assume "\<not> isObject (cats ! i)"
    then show "parseAnalysisResponse JSON_parse reply
                 = Inl (Error (''Category '' @ natToString i @ '' is not an object''))"
      by (intro fail) (simp add: validateCategory_def)
  }
  {
    assume "isObject (cats ! i) \<and> asString (getProp (cats ! i) ''name'') = None"
    then show "parseAnalysisResponse JSON_parse reply
                 = Inl (Error (''Category '' @ natToString i @ '' missing name''))"
      by (intro fail) (simp add: validateCategory_def)
  }
  {
    assume "isObject (cats ! i) \<and> asString (getProp (cats ! i) ''name'') \<noteq> None
               \<and> asNumber (getProp (cats ! i) ''weight'') = None"
    then show "parseAnalysisResponse JSON_parse reply
                 = Inl (Error (''Category '' @ natToString i @ '' missing weight''))"
      by (intro fail) (auto simp add: validateCategory_def)
  }
  {
    assume "isObject (cats ! i) \<and> asString (getProp (cats ! i) ''name'') \<noteq> None
               \<and> asNumber (getProp (cats ! i) ''weight'') \<noteq> None
               \<and> asString (getProp (cats ! i) ''description'') = None"
    then show "parseAnalysisResponse JSON_parse reply
                 = Inl (Error (''Category '' @ natToString i @ '' missing description''))"
      by (intro fail) (auto simp add: validateCategory_def)
  }
next
  assume "\<forall>c\<in>set cats. spec_wellShaped c"
  then obtain cs where cs: "mapCategories cats 0 = Inr cs"
    "map subCategories cs
       = map (\<lambda>c. map_option filterStrings (asArray (getProp c ''subCategories''))) cats"
    using mapCategories_all_wellShaped[of cats 0] by blast
  have f: "filterStrings = (\<lambda>xs. [s. JStr s \<leftarrow> xs])"
    by (rule ext) (rule filterStrings_comprehension)
  show "\<exists>res. parseAnalysisResponse JSON_parse reply = Inr res
               \<and> map subCategories (TasteAnalysisResult.categories res)
                   = map (\<lambda>c. map_option (\<lambda>xs. [s. JStr s \<leftarrow> xs])
                                 (asArray (getProp c ''subCategories'')))
                       cats"
    using cs unfolding f
    by (simp add: parseAnalysisResponse_reached[of JSON_parse reply parsed cats summary, OF assms]
          comp_def)
qed

theorem parseAnalysisResponse_entry_validation_witness:
  "parseAnalysisResponse sampleParse replyBadEntry = Inl (Error ''Category 1 missing weight'')
   \<and> (\<exists>res. parseAnalysisResponse sampleParse replyTwoCategories = Inr res
          \<and> map subCategories (TasteAnalysisResult.categories res) = [None, Some [''a'']])"
proof -
  have a: "sampleParse (extractJson replyBadEntry) = Inr valueBadEntry"
    by (simp add: extractJson_replyBadEntry sampleParse_replyBadEntry)
  have b: "getProp valueBadEntry ''categories'' = Some (JArr entriesBadEntry)"
    by (simp add: valueBadEntry_def)
  have c: "getProp valueBadEntry ''analysisSummary'' = Some (JStr ''s'')"
    by (simp add: valueBadEntry_def)
  note t1 = parseAnalysisResponse_entry_validation[of sampleParse replyBadEntry valueBadEntry
              entriesBadEntry "''s''", OF a b c, THEN conjunct1, rule_format, of 1]
  have one: "parseAnalysisResponse sampleParse replyBadEntry
               = Inl (Error (''Category '' @ natToString 1 @ '' missing weight''))"
    using t1 by (simp add: entriesBadEntry_def spec_wellShaped_def del: not_None_eq)
  have d: "sampleParse (extractJson replyTwoCategories) = Inr valueTwoCategories"
    by (simp add: extractJson_replyTwoCategories sampleParse_replyTwoCategories)
  have e: "getProp valueTwoCategories ''categories'' = Some (JArr entriesTwoCategories)"
    by (simp add: valueTwoCategories_def)
  have f: "getProp valueTwoCategories ''analysisSummary'' = Some (JStr ''s'')"
    by (simp add: valueTwoCategories_def)
  note t2 = parseAnalysisResponse_entry_validation[of sampleParse replyTwoCategories
              valueTwoCategories entriesTwoCategories "''s''", OF d e f, THEN conjunct2]
  have two: "\<exists>res. parseAnalysisResponse sampleParse replyTwoCategories = Inr res
          \<and> map subCategories (TasteAnalysisResult.categories res) = [None, Some [''a'']]"
    using t2 by (simp add: entriesTwoCategories_def spec_wellShaped_def del: not_None_eq)
  show ?thesis
    using one two by (simp add: natToString_digit digitChar_def)
qed

text \<open>
  Claim C10. \<open>parseAnalysisResponse\<close> accepts a reply whose \<open>categories\<close> is an empty array:
  it returns no category and the summary as it came; nothing asks for a least number of
  categories and nothing is normalized.
\<close>

theorem parseAnalysisResponse_empty_categories:
  assumes "JSON_parse (extractJson reply) = Inr parsed"
    and "getProp parsed ''categories'' = Some (JArr [])"
    and "getProp parsed ''analysisSummary'' = Some (JStr summary)"
  shows "parseAnalysisResponse JSON_parse reply
           = Inr \<lparr> TasteAnalysisResult.categories = [],
                   TasteAnalysisResult.analysisSummary = summary \<rparr>"
  using parseAnalysisResponse_reached[of JSON_parse reply parsed "[]" summary, OF assms]
  by simp

theorem parseAnalysisResponse_empty_categories_witness:
  "parseAnalysisResponse sampleParse ''{\"categories\":[],\"analysisSummary\":\"s\"}''
     = Inr \<lparr> TasteAnalysisResult.categories = [], TasteAnalysisResult.analysisSummary = ''s'' \<rparr>"
proof -
  have a: "sampleParse (extractJson replyEmptyCategories) = Inr valueEmptyCategories"
    by (simp add: extractJson_replyEmptyCategories sampleParse_replyEmptyCategories)
  have b: "getProp valueEmptyCategories ''categories'' = Some (JArr [])"
    by (simp add: valueEmptyCategories_def)
  have c: "getProp valueEmptyCategories ''analysisSummary'' = Some (JStr ''s'')"
    by (simp add: valueEmptyCategories_def)
  show ?thesis
    using parseAnalysisResponse_empty_categories[of sampleParse replyEmptyCategories
            valueEmptyCategories "''s''", OF a b c]
    by (simp add: replyEmptyCategories_def)
qed

section \<open>Properties of the recommendations parser\<close>

text \<open>One round of the loop does what the specification says of one entry.\<close>

lemma recommendationStep_kept:
  assumes t: "nonEmptyString (map_of kvs ''channelTitle'')"
    and r: "nonEmptyString (map_of kvs ''reason'')"
  shows "recommendationStep recs (JObj kvs) = recs @ [spec_item (JObj kvs)]"
proof -
  define item1 where "item1 =
              (case asString (getProp (JObj kvs) ''type'') of
                 None \<Rightarrow> setProp (JObj kvs) ''type'' (JStr ''channel'')
               | Some t \<Rightarrow>
                 if t \<notin> set [''channel'', ''hidden_gem'', ''content_gap'']
                 then setProp (JObj kvs) ''type'' (JStr ''channel'') else JObj kvs)"
  define item2 where "item2 =
                   (if \<not> nonEmptyString (getProp item1 ''category'')
                    then setProp item1 ''category'' (JStr ''General'') else item1)"
  define item3 where "item3 =
                   (if asNumber (getProp item2 ''confidenceScore'') = None
                    then setProp item2 ''confidenceScore'' (JNum (7 / 10)) else item2)"
  have step: "recommendationStep recs (JObj kvs) =
           recs @
                  [\<lparr> type = castString (getProp item3 ''type''),
                     channelTitle = castString (getProp item3 ''channelTitle''),
                     channelId = asString (getProp item3 ''channelId''),
                     reason = castString (getProp item3 ''reason''),
                     category = castString (getProp item3 ''category''),
                     confidenceScore = clamp01 (castNumber (getProp item3 ''confidenceScore'')),
                     subscriberCount = asNumber (getProp item3 ''subscriberCount'') \<rparr>]"
  proof -
    have "getProp item1 ''reason'' = map_of kvs ''reason''"
      by (simp add: item1_def split: option.splits)
    then show ?thesis
      using t r unfolding recommendationStep_def item1_def[symmetric] Let_def
        item2_def[symmetric] item3_def[symmetric]
      by simp
  qed
  have o1: "getProp item1 k = map_of kvs k" if "k \<noteq> ''type''" for k
    using that by (simp add: item1_def split: option.splits)
  have t1: "castString (getProp item1 ''type'') = type (spec_item (JObj kvs))"
    by (simp add: item1_def spec_item_def castString_def split: option.splits)
  have "\<exists>kvs1. item1 = JObj kvs1"
    by (simp add: item1_def split: option.splits)
  then obtain kvs1 where j1: "item1 = JObj kvs1" ..
  have o2: "getProp item2 k = getProp item1 k" if "k \<noteq> ''category''" for k
    using that by (simp add: item2_def j1)
  have c2: "castString (getProp item2 ''category'') = category (spec_item (JObj kvs))"
    using o1[of "''category''"]
    by (simp add: item2_def j1 spec_item_def castString_def nonEmptyString_def
          split: option.splits)
  have "\<exists>kvs2. item2 = JObj kvs2"
    by (simp add: item2_def j1)
  then obtain kvs2 where j2: "item2 = JObj kvs2" ..
  have o3: "getProp item3 k = getProp item2 k" if "k \<noteq> ''confidenceScore''" for k
    using that by (simp add: item3_def j2)
  have s3: "clamp01 (castNumber (getProp item3 ''confidenceScore''))
              = confidenceScore (spec_item (JObj kvs))"
    using o2[of "''confidenceScore''"] o1[of "''confidenceScore''"]
    by (simp add: item3_def j2 spec_item_def castNumber_def clamp01_def
          split: option.splits)
  show ?thesis
    unfolding step
    by (simp add: o3 o2 o1 t1 c2 s3) (simp add: spec_item_def)
qed

lemma recommendationStep_skipped:
  assumes "spec_skipped e"
  shows "recommendationStep recs e = recs"
proof (cases e)
  case (JObj kvs)
  define item1 where "item1 =
              (case asString (getProp (JObj kvs) ''type'') of
                 None \<Rightarrow> setProp (JObj kvs) ''type'' (JStr ''channel'')
               | Some t \<Rightarrow>
                 if t \<notin> set [''channel'', ''hidden_gem'', ''content_gap'']
                 then setProp (JObj kvs) ''type'' (JStr ''channel'') else JObj kvs)"
  have r1: "getProp item1 ''reason'' = map_of kvs ''reason''"
    by (simp add: item1_def split: option.splits)
  from assms JObj
  have "\<not> nonEmptyString (map_of kvs ''channelTitle'') \<or> \<not> nonEmptyString (map_of kvs ''reason'')"
    by (simp add: spec_skipped_def)
  then show ?thesis
    unfolding JObj recommendationStep_def item1_def[symmetric] Let_def
    by (auto simp: r1)
qed (simp_all add: recommendationStep_def nonEmptyString_def)

lemma recommendationStep_spec:
  "recommendationStep recs e = (if spec_skipped e then recs else recs @ [spec_item e])"
proof (cases "spec_skipped e")
  case True
  then show ?thesis by (simp add: recommendationStep_skipped)
next
  case False
  then obtain kvs where e: "e = JObj kvs"
    by (cases e) (simp_all add: spec_skipped_def nonEmptyString_def)
  from False show ?thesis
    unfolding e by (simp add: spec_skipped_def recommendationStep_kept)
qed

lemma foldl_recommendationStep:
  "foldl recommendationStep recs es = recs @ map spec_item (filter (\<lambda>e. \<not> spec_skipped e) es)"
  by (induction es arbitrary: recs) (simp_all add: recommendationStep_spec)

lemma parseRecommendationsResponse_reached:
  assumes "JSON_parse (extractJson reply) = Inr parsed"
    and "getProp parsed ''recommendations'' = Some (JArr es)"
  shows "parseRecommendationsResponse JSON_parse reply =
        (if filter (\<lambda>e. \<not> spec_skipped e) es = []
         then Inl (Error ''No valid recommendations in LLM response'')
         else Inr \<lparr> recommendations = map spec_item (filter (\<lambda>e. \<not> spec_skipped e) es) \<rparr>)"
proof -
  from assms(2) have "isObject parsed" by (rule getProp_isObject)
  then show ?thesis
    using assms
    by (simp add: parseRecommendationsResponse_def foldl_recommendationStep Let_def)
qed

lemma extractJson_replyOneRecommendation: "extractJson replyOneRecommendation = replyOneRecommendation"
  by (simp add: extractJson_def trim_def isWhiteSpace_def startsWith_def replyOneRecommendation_def)

lemma extractJson_replyNoRecommendation: "extractJson replyNoRecommendation = replyNoRecommendation"
  by (simp add: extractJson_def trim_def isWhiteSpace_def startsWith_def replyNoRecommendation_def)

lemma sampleParse_replyOneRecommendation:
  "sampleParse replyOneRecommendation = Inr valueOneRecommendation"
  by (simp add: sampleParse_def replyOneRecommendation_def replyBadEntry_def replyZeroWeights_def
        replyTwoCategories_def replyEmptyCategories_def)

lemma sampleParse_replyNoRecommendation:
  "sampleParse replyNoRecommendation = Inr valueNoRecommendation"
  by (simp add: sampleParse_def replyNoRecommendation_def replyOneRecommendation_def
        replyBadEntry_def replyZeroWeights_def replyTwoCategories_def replyEmptyCategories_def)

lemma kept_entriesOneRecommendation:
  "filter (\<lambda>e. \<not> spec_skipped e) entriesOneRecommendation
     = [JObj [(''type'', JStr ''bogus''), (''channelTitle'', JStr ''A''), (''reason'', JStr ''r'')]]"
  by (simp add: entriesOneRecommendation_def spec_skipped_def nonEmptyString_def)

lemma kept_entriesNoRecommendation:
  "filter (\<lambda>e. \<not> spec_skipped e) entriesNoRecommendation = []"
  by (simp add: entriesNoRecommendation_def spec_skipped_def nonEmptyString_def)

text \<open>
  Claim C3. In \<open>parseRecommendationsResponse\<close>, an entry of \<open>recommendations\<close> that is not an
  object, or whose \<open>channelTitle\<close> or \<open>reason\<close> is missing, not a string or empty, is left
  out and the others are still processed. The result holds one item for each entry that
  is kept, in order: its \<open>type\<close> is the entry's when that is one of \<open>channel\<close>, \<open>hidden_gem\<close>,
  \<open>content_gap\<close> and \<open>channel\<close> otherwise; its \<open>category\<close> is \<open>General\<close> when the entry has no
  string there; its \<open>confidenceScore\<close> is 0.7 when the entry has no number there and the
  number clamped to the interval from 0 to 1 otherwise; \<open>channelId\<close> and \<open>subscriberCount\<close>
  are carried over when they are a string and a number.
\<close>

theorem parseRecommendationsResponse_entries:
  assumes "JSON_parse (extractJson reply) = Inr parsed"
    and "getProp parsed ''recommendations'' = Some (JArr es)"
    and "parseRecommendationsResponse JSON_parse reply = Inr res"
  shows "recommendations res = map spec_item (filter (\<lambda>e. \<not> spec_skipped e) es)"
  using parseRecommendationsResponse_reached[of JSON_parse reply parsed es, OF assms(1,2)] assms(3)
  by (auto split: if_splits)

theorem parseRecommendationsResponse_entries_witness:
  "parseRecommendationsResponse sampleParse replyOneRecommendation =
     Inr \<lparr> recommendations =
             [\<lparr> type = ''channel'', channelTitle = ''A'', channelId = None, reason = ''r'',
                category = ''General'', confidenceScore = 7 / 10, subscriberCount = None \<rparr>] \<rparr>
   \<and> map spec_item (filter (\<lambda>e. \<not> spec_skipped e) entriesOneRecommendation) =
         [\<lparr> type = ''channel'', channelTitle = ''A'', channelId = None, reason = ''r'',
            category = ''General'', confidenceScore = 7 / 10, subscriberCount = None \<rparr>]"
proof -
  have a: "sampleParse (extractJson replyOneRecommendation) = Inr valueOneRecommendation"
    by (simp add: extractJson_replyOneRecommendation sampleParse_replyOneRecommendation)
  have b: "getProp valueOneRecommendation ''recommendations'' = Some (JArr entriesOneRecommendation)"
    by (simp add: valueOneRecommendation_def)
  have c: "parseRecommendationsResponse sampleParse replyOneRecommendation =
     Inr \<lparr> recommendations =
             [\<lparr> type = ''channel'', channelTitle = ''A'', channelId = None, reason = ''r'',
                category = ''General'', confidenceScore = 7 / 10, subscriberCount = None \<rparr>] \<rparr>"
    by (simp add: parseRecommendationsResponse_reached[of sampleParse replyOneRecommendation
                    valueOneRecommendation entriesOneRecommendation, OF a b]
          kept_entriesOneRecommendation spec_item_def castString_def)
  from parseRecommendationsResponse_entries[of sampleParse replyOneRecommendation
         valueOneRecommendation entriesOneRecommendation, OF a b c] c
  show ?thesis by simp
qed

text \<open>
  Claim C7. For a reply that parses to an object with a \<open>recommendations\<close> array,
  \<open>parseRecommendationsResponse\<close> fails with \<open>No valid recommendations in LLM response\<close> when
  every entry is skipped, and succeeds with a list that is not empty when some entry is kept.
\<close>

theorem parseRecommendationsResponse_no_valid:
  assumes "JSON_parse (extractJson reply) = Inr parsed"
    and "getProp parsed ''recommendations'' = Some (JArr es)"
  shows "((\<forall>e\<in>set es. spec_skipped e) \<longrightarrow>
            parseRecommendationsResponse JSON_parse reply
              = Inl (Error ''No valid recommendations in LLM response''))
       \<and> ((\<exists>e\<in>set es. \<not> spec_skipped e) \<longrightarrow>
            (\<exists>res. parseRecommendationsResponse JSON_parse reply = Inr res
                   \<and> recommendations res \<noteq> []))"
  unfolding parseRecommendationsResponse_reached[of JSON_parse reply parsed es, OF assms]
  by (auto simp: filter_empty_conv)

theorem parseRecommendationsResponse_no_valid_witness:
  "parseRecommendationsResponse sampleParse replyNoRecommendation
     = Inl (Error ''No valid recommendations in LLM response'')
   \<and> (\<exists>res. parseRecommendationsResponse sampleParse replyOneRecommendation = Inr res
          \<and> recommendations res \<noteq> [])"
proof -
  have a: "sampleParse (extractJson replyNoRecommendation) = Inr valueNoRecommendation"
    by (simp add: extractJson_replyNoRecommendation sampleParse_replyNoRecommendation)
  have b: "getProp valueNoRecommendation ''recommendations'' = Some (JArr entriesNoRecommendation)"
    by (simp add: valueNoRecommendation_def)
  have c: "sampleParse (extractJson replyOneRecommendation) = Inr valueOneRecommendation"
    by (simp add: extractJson_replyOneRecommendation sampleParse_replyOneRecommendation)
  have d: "getProp valueOneRecommendation ''recommendations'' = Some (JArr entriesOneRecommendation)"
    by (simp add: valueOneRecommendation_def)
  have none: "\<forall>e\<in>set entriesNoRecommendation. spec_skipped e"
    by (simp add: entriesNoRecommendation_def spec_skipped_def nonEmptyString_def)
  have some: "\<exists>e\<in>set entriesOneRecommendation. \<not> spec_skipped e"
    by (simp add: entriesOneRecommendation_def spec_skipped_def nonEmptyString_def)
  note t1 = parseRecommendationsResponse_no_valid[of sampleParse replyNoRecommendation
              valueNoRecommendation entriesNoRecommendation, OF a b, THEN conjunct1, THEN mp, OF none]
  note t2 = parseRecommendationsResponse_no_valid[of sampleParse replyOneRecommendation
              valueOneRecommendation entriesOneRecommendation, OF c d, THEN conjunct2, THEN mp, OF some]
  show ?thesis
    using t1 t2 by (rule conjI)
qed

section \<open>Properties of the code-fence step\<close>

lemma trim_core:
  assumes "\<forall>c\<in>set ws1. isWhiteSpace c" "\<forall>c\<in>set ws2. isWhiteSpace c"
    and "core = [] \<or> (\<not> isWhiteSpace (hd core) \<and> \<not> isWhiteSpace (last core))"
  shows "trim (ws1 @ core @ ws2) = core"
proof (cases "core = []")
  case True
  have "\<forall>x\<in>set (ws1 @ ws2). isWhiteSpace x"
    using assms(1,2) by auto
  then have d: "dropWhile isWhiteSpace (ws1 @ ws2) = []"
    by (simp only: dropWhile_eq_Nil_conv)
  have "trim (ws1 @ ws2) = []"
    unfolding trim_def d by simp
  then show ?thesis unfolding True by (simp only: append_Nil)
next
  case False
  with assms(3) have edge: "\<not> isWhiteSpace (hd core)" "\<not> isWhiteSpace (last core)" by simp_all
  have a: "dropWhile isWhiteSpace (ws1 @ core @ ws2) = core @ ws2"
    using assms(1) False edge(1) by (cases core) (simp_all add: dropWhile_append2)
  have "dropWhile isWhiteSpace (rev ws2 @ rev core) = dropWhile isWhiteSpace (rev core)"
    by (rule dropWhile_append2) (use assms(2) in simp)
  moreover have "dropWhile isWhiteSpace (rev core) = rev core"
    using False edge(2) by (cases core rule: rev_cases) simp_all
  ultimately have b: "dropWhile isWhiteSpace (rev ws2 @ rev core) = rev core"
    by simp
  show ?thesis by (simp add: trim_def a b)
qed

lemma endsWith_iff: "endsWith s p \<longleftrightarrow> (\<exists>q. s = q @ p)"
proof
  assume "endsWith s p"
  then have "s = take (length s - length p) s @ p"
    by (metis append_take_drop_id endsWith_def)
  then show "\<exists>q. s = q @ p" ..
next
  assume "\<exists>q. s = q @ p"
  then show "endsWith s p" by (auto simp: endsWith_def)
qed

text \<open>The opening pattern: three backticks, \<open>json\<close> if it follows, a line feed if it follows.\<close>

lemma startsWith_fence: "startsWith s ''```'' \<longleftrightarrow> take 3 s = ''```''"
  by (simp add: startsWith_def eval_nat_numeral)

lemma startsWith_json: "startsWith s ''json'' \<longleftrightarrow> take 4 s = ''json''"
  by (simp add: startsWith_def eval_nat_numeral)

lemma startsWith_newline: "startsWith s ''\<newline>'' \<longleftrightarrow> take 1 s = ''\<newline>''"
  by (simp add: startsWith_def)

lemma replaceOpeningFence_parts:
  assumes "tag = ''json'' \<or> (tag = [] \<and> take 4 (nl @ m) \<noteq> ''json'')"
    and "nl = ''\<newline>'' \<or> (nl = [] \<and> take 1 m \<noteq> ''\<newline>'')"
  shows "replaceOpeningFence (''```'' @ tag @ nl @ m) = m"
proof -
  have last_step: "(if take 1 (nl @ m) = ''\<newline>'' then drop 1 (nl @ m) else nl @ m) = m"
    using assms(2) by auto
  have open3: "replaceOpeningFence (''```'' @ tag @ nl @ m) =
          (let r2 = (if take 4 (tag @ nl @ m) = ''json'' then drop 4 (tag @ nl @ m) else tag @ nl @ m)
           in if take 1 r2 = ''\<newline>'' then drop 1 r2 else r2)"
    by (simp add: replaceOpeningFence_def startsWith_fence startsWith_json startsWith_newline)
  from assms(1) show ?thesis
  proof
    assume t: "tag = ''json''"
    have a: "take 4 (tag @ nl @ m) = ''json''" using t by simp
    have b: "drop 4 (tag @ nl @ m) = nl @ m" using t by simp
    show ?thesis
      unfolding open3 Let_def by (simp only: a b if_True simp_thms last_step)
  next
    assume t: "tag = [] \<and> take 4 (nl @ m) \<noteq> ''json''"
    then have a: "take 4 (nl @ m) \<noteq> ''json''" by simp
    have b: "tag @ nl @ m = nl @ m" using t by simp
    show ?thesis
      apply (simp only: open3 Let_def)
      apply (simp only: b a if_False simp_thms last_step)
      done
  qed
qed

text \<open>The closing pattern: three backticks at the end, with the line feed before them.\<close>

lemma replaceClosingFence_parts:
  assumes "cl = ''\<newline>```''
         \<or> (cl = ''```'' \<and> (inner = [] \<or> last inner \<noteq> CHR ''\<newline>''))
         \<or> (cl = [] \<and> \<not> (\<exists>p. inner = p @ ''```''))"
  shows "replaceClosingFence (inner @ cl) = inner"
proof -
  consider (a) "cl = ''\<newline>```''"
    | (b) "cl = ''```''" "inner = [] \<or> last inner \<noteq> CHR ''\<newline>''"
    | (c) "cl = []" "\<not> (\<exists>p. inner = p @ ''```'')"
    using assms by blast
  then show ?thesis
  proof cases
    case a
    then show ?thesis by (simp add: replaceClosingFence_def endsWith_def)
  next
    case b
    have no: "\<not> endsWith (inner @ ''```'') ''\<newline>```''"
    proof
      assume "endsWith (inner @ ''```'') ''\<newline>```''"
      then obtain q where "inner @ ''```'' = q @ ''\<newline>```''"
        unfolding endsWith_iff by blast
      then have "inner = q @ ''\<newline>''" by simp
      with b(2) show False by auto
    qed
    have yes: "endsWith (inner @ ''```'') ''```''"
      unfolding endsWith_iff by blast
    show ?thesis
      unfolding b(1) replaceClosingFence_def using no yes by simp
  next
    case c
    have n1: "\<not> endsWith inner ''```''"
      using c(2) unfolding endsWith_iff by blast
    have n2: "\<not> endsWith inner ''\<newline>```''"
    proof
      assume "endsWith inner ''\<newline>```''"
      then obtain q where "inner = q @ ''\<newline>```''" unfolding endsWith_iff by blast
      then have "inner = (q @ ''\<newline>'') @ ''```''" by simp
      with c(2) show False by blast
    qed
    show ?thesis
      unfolding c(1) replaceClosingFence_def using n1 n2 by simp
  qed
qed

text \<open>Every text that starts with three backticks reads as a fence, perhaps the tag
  \<open>json\<close>, perhaps a line feed, a content, and perhaps a closing fence.\<close>

lemma fence_reading:
  assumes "take 3 core = ''```''"
  shows "\<exists>tag nl inner cl.
           core = ''```'' @ tag @ nl @ inner @ cl
         \<and> (tag = ''json'' \<or> tag = [] \<and> take 4 (nl @ inner @ cl) \<noteq> ''json'')
         \<and> (nl = ''\<newline>'' \<or> nl = [] \<and> take 1 (inner @ cl) \<noteq> ''\<newline>'')
         \<and> (cl = ''\<newline>```''
            \<or> cl = ''```'' \<and> (inner = [] \<or> last inner \<noteq> CHR ''\<newline>'')
            \<or> cl = [] \<and> \<not> (\<exists>p. inner = p @ ''```''))"
proof -
  define rest where "rest = drop 3 core"
  have core: "core = ''```'' @ rest"
    using assms unfolding rest_def by (metis append_take_drop_id)
  obtain tag r1 where tag: "rest = tag @ r1" "tag = ''json'' \<or> tag = [] \<and> take 4 r1 \<noteq> ''json''"
  proof (cases "take 4 rest = ''json''")
    case True
    then have "rest = ''json'' @ drop 4 rest" by (metis append_take_drop_id)
    then show ?thesis using that by blast
  next
    case False
    then show ?thesis using that[of "[]" rest] by simp
  qed
  obtain nl m where nl: "r1 = nl @ m" "nl = ''\<newline>'' \<or> nl = [] \<and> take 1 m \<noteq> ''\<newline>''"
  proof (cases "take 1 r1 = ''\<newline>''")
    case True
    then have "r1 = ''\<newline>'' @ drop 1 r1" by (metis append_take_drop_id)
    then show ?thesis using that by blast
  next
    case False
    then show ?thesis using that[of "[]" r1] by simp
  qed
  obtain inner cl where cl: "m = inner @ cl"
    "cl = ''\<newline>```''
       \<or> cl = ''```'' \<and> (inner = [] \<or> last inner \<noteq> CHR ''\<newline>'')
       \<or> cl = [] \<and> \<not> (\<exists>p. inner = p @ ''```'')"
  proof (cases "\<exists>p. m = p @ ''```''")
    case False
    then show ?thesis using that[of m "[]"] by simp
  next
    case True
    then obtain p where p: "m = p @ ''```''" by blast
    show ?thesis
    proof (cases "p = [] \<or> last p \<noteq> CHR ''\<newline>''")
      case True
      then show ?thesis using that[of p "''```''"] p by simp
    next
      case False
      then have "p = butlast p @ ''\<newline>''"
        by (metis append_butlast_last_id)
      then have "m = butlast p @ ''\<newline>```''" using p by (metis append.assoc append_Cons append_Nil)
      then show ?thesis using that[of "butlast p" "''\<newline>```''"] by simp
    qed
  qed
  have t: "tag = ''json'' \<or> tag = [] \<and> take 4 (nl @ inner @ cl) \<noteq> ''json''"
    using tag(2) nl(1) cl(1) by simp
  have n: "nl = ''\<newline>'' \<or> nl = [] \<and> take 1 (inner @ cl) \<noteq> ''\<newline>''"
    using nl(2) cl(1) by simp
  have "core = ''```'' @ tag @ nl @ inner @ cl"
    using core tag(1) nl(1) cl(1) by simp
  then show ?thesis using t n cl(2) by blast
qed

lemma extractJson_trimmed:
  assumes "\<forall>c\<in>set ws1. isWhiteSpace c" "\<forall>c\<in>set ws2. isWhiteSpace c"
    and "core = [] \<or> (\<not> isWhiteSpace (hd core) \<and> \<not> isWhiteSpace (last core))"
  shows "extractJson (ws1 @ core @ ws2) =
           (if take 3 core = ''```'' then replaceClosingFence (replaceOpeningFence core) else core)"
  by (simp add: extractJson_def trim_core[OF assms] startsWith_fence Let_def)

lemma parsers_read_extractJson:
  assumes "extractJson a = extractJson b"
  shows "parseAnalysisResponse JSON_parse a = parseAnalysisResponse JSON_parse b"
    and "parseRecommendationsResponse JSON_parse a = parseRecommendationsResponse JSON_parse b"
  using assms by (simp_all add: parseAnalysisResponse_def parseRecommendationsResponse_def)

text \<open>
  Claim C4, as the specification states it: a text wrapped in a fenced code block loses the
  opening fence, with its optional language tag, and the closing fence. The code knows one
  tag only. With the tag \<open>js\<close> the fences are removed and the tag stays in the text.
\<close>

theorem extractJson_language_tag_counterexample:
  "extractJson ''```js\<newline>{}\<newline>```'' = ''js\<newline>{}''
   \<and> extractJson ''```js\<newline>{}\<newline>```'' \<noteq> ''{}''"
  by (simp add: extractJson_def trim_def isWhiteSpace_def startsWith_def endsWith_def
        replaceOpeningFence_def replaceClosingFence_def)

text \<open>
  Claim C4, amended. Take the input of either parser without the white space around it,
  \<open>core\<close>. When \<open>core\<close> does not start with three backticks it is what the parser reads.
  When it does, the three backticks are removed, with \<open>json\<close> when that follows them
  directly and with one line feed when that comes next; nothing else is taken for a
  language tag. Of what is left, three backticks at the very end are removed, with the
  line feed before them when there is one. What remains is what the parser reads. Every
  text that starts with three backticks reads in this way, and each parser reads the input
  through this step only.
\<close>

theorem extractJson_fence:
  assumes "\<forall>c\<in>set ws1. isWhiteSpace c" and "\<forall>c\<in>set ws2. isWhiteSpace c"
    and "core = [] \<or> (\<not> isWhiteSpace (hd core) \<and> \<not> isWhiteSpace (last core))"
  shows "(take 3 core \<noteq> ''```'' \<longrightarrow> extractJson (ws1 @ core @ ws2) = core)
       \<and> (core = ''```'' @ tag @ nl @ inner @ cl
            \<and> (tag = ''json'' \<or> tag = [] \<and> take 4 (nl @ inner @ cl) \<noteq> ''json'')
            \<and> (nl = ''\<newline>'' \<or> nl = [] \<and> take 1 (inner @ cl) \<noteq> ''\<newline>'')
            \<and> (cl = ''\<newline>```''
               \<or> cl = ''```'' \<and> (inner = [] \<or> last inner \<noteq> CHR ''\<newline>'')
               \<or> cl = [] \<and> \<not> (\<exists>p. inner = p @ ''```''))
          \<longrightarrow> extractJson (ws1 @ core @ ws2) = inner)
       \<and> (take 3 core = ''```'' \<longrightarrow>
            (\<exists>tag nl inner cl.
                core = ''```'' @ tag @ nl @ inner @ cl
              \<and> (tag = ''json'' \<or> tag = [] \<and> take 4 (nl @ inner @ cl) \<noteq> ''json'')
              \<and> (nl = ''\<newline>'' \<or> nl = [] \<and> take 1 (inner @ cl) \<noteq> ''\<newline>'')
              \<and> (cl = ''\<newline>```''
                 \<or> cl = ''```'' \<and> (inner = [] \<or> last inner \<noteq> CHR ''\<newline>'')
                 \<or> cl = [] \<and> \<not> (\<exists>p. inner = p @ ''```''))))
       \<and> (extractJson a = extractJson b \<longrightarrow>
            parseAnalysisResponse JSON_parse a = parseAnalysisResponse JSON_parse b
          \<and> parseRecommendationsResponse JSON_parse a = parseRecommendationsResponse JSON_parse b)"
proof (intro conjI impI)
  note e = extractJson_trimmed[OF assms]
  show "extractJson (ws1 @ core @ ws2) = core" if "take 3 core \<noteq> ''```''"
    using that by (simp add: e)
  show "extractJson (ws1 @ core @ ws2) = inner"
    if h: "core = ''```'' @ tag @ nl @ inner @ cl
            \<and> (tag = ''json'' \<or> tag = [] \<and> take 4 (nl @ inner @ cl) \<noteq> ''json'')
            \<and> (nl = ''\<newline>'' \<or> nl = [] \<and> take 1 (inner @ cl) \<noteq> ''\<newline>'')
            \<and> (cl = ''\<newline>```''
               \<or> cl = ''```'' \<and> (inner = [] \<or> last inner \<noteq> CHR ''\<newline>'')
               \<or> cl = [] \<and> \<not> (\<exists>p. inner = p @ ''```''))"
  proof -
    from h have c: "core = ''```'' @ tag @ nl @ inner @ cl" by blast
    then have s: "take 3 core = ''```''" by simp
    have "replaceOpeningFence core = inner @ cl"
      unfolding c by (rule replaceOpeningFence_parts) (use h in blast)+
    moreover have "replaceClosingFence (inner @ cl) = inner"
      by (rule replaceClosingFence_parts) (use h in blast)
    ultimately show ?thesis using s by (simp add: e)
  qed
  show "\<exists>tag nl inner cl.
                core = ''```'' @ tag @ nl @ inner @ cl
              \<and> (tag = ''json'' \<or> tag = [] \<and> take 4 (nl @ inner @ cl) \<noteq> ''json'')
              \<and> (nl = ''\<newline>'' \<or> nl = [] \<and> take 1 (inner @ cl) \<noteq> ''\<newline>'')
              \<and> (cl = ''\<newline>```''
                 \<or> cl = ''```'' \<and> (inner = [] \<or> last inner \<noteq> CHR ''\<newline>'')
                 \<or> cl = [] \<and> \<not> (\<exists>p. inner = p @ ''```''))"
    if "take 3 core = ''```''"
    using that by (rule fence_reading)
  show "parseAnalysisResponse JSON_parse a = parseAnalysisResponse JSON_parse b"
    if "extractJson a = extractJson b"
    using that by (rule parsers_read_extractJson)
  show "parseRecommendationsResponse JSON_parse a = parseRecommendationsResponse JSON_parse b"
    if "extractJson a = extractJson b"
    using that by (rule parsers_read_extractJson)
qed

theorem extractJson_fence_witness:
  "extractJson ''  ```json\<newline>{}\<newline>```\<newline>'' = ''{}''
   \<and> extractJson ''```JSON\<newline>{}\<newline>```'' = ''JSON\<newline>{}''
   \<and> extractJson ''```json\<newline>{}```'' = ''{}''
   \<and> extractJson ''```json{}'' = ''{}''
   \<and> extractJson '' {} '' = ''{}''"
proof -
  have ws: "\<forall>c\<in>set ''  ''. isWhiteSpace c" "\<forall>c\<in>set ''\<newline>''. isWhiteSpace c"
    "\<forall>c\<in>set ([]::string). isWhiteSpace c" "\<forall>c\<in>set '' ''. isWhiteSpace c"
    by (simp_all add: isWhiteSpace_def)
  have nofence: "\<not> (\<exists>p. ''{}'' = p @ ''```'')"
    by (auto simp: Cons_eq_append_conv)
  have one: "extractJson (''  '' @ ''```json\<newline>{}\<newline>```'' @ ''\<newline>'') = ''{}''"
    using extractJson_fence[where ?ws1.0 = "''  ''" and ?ws2.0 = "''\<newline>''"
        and core = "''```json\<newline>{}\<newline>```''" and tag = "''json''" and nl = "''\<newline>''"
        and inner = "''{}''" and cl = "''\<newline>```''", OF ws(1) ws(2)]
    by (simp add: isWhiteSpace_def)
  have two: "extractJson ([] @ ''```JSON\<newline>{}\<newline>```'' @ []) = ''JSON\<newline>{}''"
    using extractJson_fence[where ?ws1.0 = "[]" and ?ws2.0 = "[]"
        and core = "''```JSON\<newline>{}\<newline>```''" and tag = "[]" and nl = "[]"
        and inner = "''JSON\<newline>{}''" and cl = "''\<newline>```''", OF ws(3) ws(3)]
    by (simp add: isWhiteSpace_def)
  have three: "extractJson ([] @ ''```json\<newline>{}```'' @ []) = ''{}''"
    using extractJson_fence[where ?ws1.0 = "[]" and ?ws2.0 = "[]"
        and core = "''```json\<newline>{}```''" and tag = "''json''" and nl = "''\<newline>''"
        and inner = "''{}''" and cl = "''```''", OF ws(3) ws(3)]
    by (simp add: isWhiteSpace_def)
  have four: "extractJson ([] @ ''```json{}'' @ []) = ''{}''"
    using extractJson_fence[where ?ws1.0 = "[]" and ?ws2.0 = "[]"
        and core = "''```json{}''" and tag = "''json''" and nl = "[]"
        and inner = "''{}''" and cl = "[]", OF ws(3) ws(3)] nofence
    by (simp add: isWhiteSpace_def)
  have five: "extractJson ('' '' @ ''{}'' @ '' '') = ''{}''"
    using extractJson_fence[where ?ws1.0 = "'' ''" and ?ws2.0 = "'' ''"
        and core = "''{}''", OF ws(4) ws(4)]
    by (simp add: isWhiteSpace_def)
  show ?thesis
    using one two three four five by simp
qed

section \<open>Properties of the recommendation prompt\<close>

lemma insertSorted_insort_key:
  "insertSorted (\<lambda>a b. weight b - weight a) x ys = insort_key (\<lambda>c. - weight c) x ys"
  by (induction ys) simp_all

lemma arraySort_sort_key:
  "arraySort (\<lambda>a b. weight b - weight a) xs = sort_key (\<lambda>c. - weight c) xs"
  unfolding arraySort_def sort_key_def
  by (induction xs) (simp_all add: insertSorted_insort_key)

lemma arraySort_mset: "mset (arraySort (\<lambda>a b. weight b - weight a) xs) = mset xs"
  by (simp add: arraySort_sort_key)

lemma arraySort_descending:
  "sorted_wrt (\<lambda>a b. weight a \<ge> weight b) (arraySort (\<lambda>a b. weight b - weight a) xs)"
proof -
  have "sorted (map (\<lambda>c. - weight c) (sort_key (\<lambda>c. - weight c) xs))"
    by (rule sorted_sort_key)
  then show ?thesis
    by (simp add: arraySort_sort_key sorted_map)
qed

lemma arraySort_stable:
  "filter (\<lambda>c. weight c = w) (arraySort (\<lambda>a b. weight b - weight a) xs)
     = filter (\<lambda>c. weight c = w) xs"
proof -
  have "filter (\<lambda>c. - weight c = - w) (sort_key (\<lambda>c. - weight c) xs)
          = filter (\<lambda>c. - weight c = - w) xs"
    by (rule sort_key_stable)
  then show ?thesis by (simp add: arraySort_sort_key)
qed

lemma arraySort_Nil: "arraySort compareFn [] = []"
  by (simp add: arraySort_def)

lemma arraySort_sampleCategories:
  "arraySort (\<lambda>a b. weight b - weight a) sampleCategories
     = [sampleCategories ! 1, sampleCategories ! 0, sampleCategories ! 2]"
  by (simp add: arraySort_def sampleCategories_def)





lemma formatCategories_heap:
  "snd (formatCategories rt r h) = h(r := arraySort (\<lambda>a b. weight b - weight a) (h r))"
  by (simp add: formatCategories_def Let_def)

lemma buildPrompt_heap:
  "snd (buildPrompt rt input h) =
     h(TasteProfileInput.categories (tasteProfile input) :=
         arraySort (\<lambda>a b. weight b - weight a) (h (TasteProfileInput.categories (tasteProfile input))))"
  by (simp add: buildPrompt_def formatCategories_def Let_def split: prod.splits)

lemma generateRecommendations_heap:
  "fst (snd (generateRecommendations rt llm JSON_parse input h s)) =
     h(TasteProfileInput.categories (tasteProfile input) :=
         arraySort (\<lambda>a b. weight b - weight a) (h (TasteProfileInput.categories (tasteProfile input))))"
proof (cases "h (TasteProfileInput.categories (tasteProfile input)) = []")
  case True
  then have "h(TasteProfileInput.categories (tasteProfile input) :=
               arraySort (\<lambda>a b. weight b - weight a)
                 (h (TasteProfileInput.categories (tasteProfile input)))) = h"
    by (simp add: arraySort_Nil fun_upd_idem)
  then show ?thesis using True by (simp add: generateRecommendations_def)
next
  case False
  then show ?thesis
    using buildPrompt_heap[of rt input h]
    by (auto simp: generateRecommendations_def Let_def split: prod.splits sum.splits)
qed



text \<open>
  Claim C9. Building the recommendation prompt changes its input: \<open>formatCategories\<close> sorts
  the caller's array itself. After \<open>formatCategories\<close>, after \<open>buildPrompt\<close>, and after
  \<open>generateRecommendations\<close> however it ends, the array that the taste profile refers to
  holds the same categories in the order of descending weight, categories of equal weight
  in the order they had, and every other array is as before.
\<close>

theorem generateRecommendations_sorts_in_place:
  "\<exists>ys. snd (formatCategories rt (TasteProfileInput.categories (tasteProfile input)) h)
            = h(TasteProfileInput.categories (tasteProfile input) := ys)
      \<and> snd (buildPrompt rt input h) = h(TasteProfileInput.categories (tasteProfile input) := ys)
      \<and> fst (snd (generateRecommendations rt llm JSON_parse input h s))
            = h(TasteProfileInput.categories (tasteProfile input) := ys)
      \<and> mset ys = mset (h (TasteProfileInput.categories (tasteProfile input)))
      \<and> sorted_wrt (\<lambda>a b. weight a \<ge> weight b) ys
      \<and> (\<forall>w. filter (\<lambda>c. weight c = w) ys
               = filter (\<lambda>c. weight c = w) (h (TasteProfileInput.categories (tasteProfile input))))"
  using formatCategories_heap[of rt "TasteProfileInput.categories (tasteProfile input)" h]
    buildPrompt_heap[of rt input h] generateRecommendations_heap[of rt llm JSON_parse input h s]
    arraySort_mset[of "h (TasteProfileInput.categories (tasteProfile input))"]
    arraySort_descending[of "h (TasteProfileInput.categories (tasteProfile input))"]
    arraySort_stable[of _ "h (TasteProfileInput.categories (tasteProfile input))"]
  by blast

theorem generateRecommendations_sorts_in_place_witness:
  "fst (snd (generateRecommendations sampleRuntime (\<lambda>msgs options s. (Inl (Error ''offline''), s))
               sampleParse sampleInput (\<lambda>r. if r = 0 then sampleCategories else []) ())) 0
     = [sampleCategories ! 1, sampleCategories ! 0, sampleCategories ! 2]
   \<and> [sampleCategories ! 1, sampleCategories ! 0, sampleCategories ! 2] \<noteq> sampleCategories"
proof -
  let ?h = "\<lambda>r::nat. if r = 0 then sampleCategories else []"
  let ?llm = "\<lambda>(msgs::LLMMessage list) (options::LLMCompletionOptions) (s::unit).
                (Inl (Error ''offline'') :: thrown + LLMCompletionResponse, s)"
  have r: "TasteProfileInput.categories (tasteProfile sampleInput) = 0"
    by (simp add: sampleInput_def)
  from generateRecommendations_sorts_in_place[of sampleRuntime sampleInput ?h ?llm sampleParse "()"]
  obtain ys where ys:
      "fst (snd (generateRecommendations sampleRuntime ?llm sampleParse sampleInput ?h ())) = ?h(0 := ys)"
      "snd (formatCategories sampleRuntime 0 ?h) = ?h(0 := ys)"
    unfolding r by blast
  have "snd (formatCategories sampleRuntime 0 ?h) 0
          = [sampleCategories ! 1, sampleCategories ! 0, sampleCategories ! 2]"
    by (simp add: formatCategories_heap arraySort_sampleCategories)
  with ys(2) have "ys = [sampleCategories ! 1, sampleCategories ! 0, sampleCategories ! 2]"
    by simp
  with ys(1) have "fst (snd (generateRecommendations sampleRuntime ?llm sampleParse sampleInput ?h ())) 0
     = [sampleCategories ! 1, sampleCategories ! 0, sampleCategories ! 2]"
    by simp
  moreover have "[sampleCategories ! 1, sampleCategories ! 0, sampleCategories ! 2] \<noteq> sampleCategories"
    by (simp add: sampleCategories_def)
  ultimately show ?thesis by simp
qed

section \<open>Properties of the analyze pipeline\<close>

lemma getLLMProvider_fresh:
  assumes "GITHUB_TOKEN env = Some t" "t \<noteq> []" "cachedProvider s = None"
  shows "getLLMProvider env s =
           (Inr \<lparr> token = t, GitHubModelsProvider.model =
                    (case GITHUB_MODEL env of None \<Rightarrow> DEFAULT_MODELS github | Some m \<Rightarrow> m) \<rparr>,
            s\<lparr>cachedProvider := Some \<lparr> token = t, GitHubModelsProvider.model =
                    (case GITHUB_MODEL env of None \<Rightarrow> DEFAULT_MODELS github | Some m \<Rightarrow> m) \<rparr>\<rparr>)"
  using assms by (simp add: getLLMProvider_def createGitHubModelsProvider_def isConfigured_def)

lemma getLLMProvider_cached:
  "cachedProvider s = Some p \<Longrightarrow> getLLMProvider env s = (Inr p, s)"
  by (simp add: getLLMProvider_def)

text \<open>The provider that \<open>getLLMProvider\<close> returns is the cached one from then on.\<close>

lemma getLLMProvider_caches:
  "getLLMProvider env s = (Inr p, s1) \<Longrightarrow> cachedProvider s1 = Some p"
  by (auto simp: getLLMProvider_def split: option.splits if_splits)

lemma isLLMConfigured_provider:
  "getLLMProvider env s = (Inr p, s1) \<Longrightarrow> isLLMConfigured env s = (True, s1)"
  by (simp add: isLLMConfigured_def)

lemma provider_not_ok:
  assumes "token p \<noteq> []" "\<not> ok r"
  shows "fst (GitHubModelsProvider_complete (\<lambda>req. Inr r) p msgs options s)
           = Inl (Error (''GitHub Models API error ('' @ natToString (status r) @ ''): '' @ bodyText r))"
  using assms by (simp add: GitHubModelsProvider_complete_def isConfigured_def Let_def)

lemma provider_sends:
  assumes "token p \<noteq> []"
  shows "length (requests (snd (GitHubModelsProvider_complete fetch p msgs options s)))
           = Suc (length (requests s))"
  using assms
  by (simp add: GitHubModelsProvider_complete_def isConfigured_def Let_def
      split: sum.splits option.splits list.splits)

text \<open>With data to analyze and a configured provider, \<open>analyzeTaste\<close> sends one request.\<close>

lemma analyzeTaste_sends_request:
  assumes "subscriptions input \<noteq> [] \<or> likedVideos input \<noteq> []"
    and "cachedProvider s = Some p" "token p \<noteq> []"
  shows "length (requests (snd (analyzeTaste (complete env fetch) JSON_parse input s)))
           = Suc (length (requests s))"
proof -
  let ?msgs = "[\<lparr> LLMMessage.role = system, LLMMessage.content = analyzer_SYSTEM_PROMPT \<rparr>,
        \<lparr> LLMMessage.role = user, LLMMessage.content = buildAnalysisPrompt input \<rparr>]"
  let ?opts = "\<lparr> LLMCompletionOptions.temperature = Some (7 / 10), maxTokens = Some 2000,
         topP = None, LLMCompletionOptions.stop = None \<rparr>"
  obtain out s' where c: "GitHubModelsProvider_complete fetch p ?msgs ?opts s = (out, s')"
    by (cases "GitHubModelsProvider_complete fetch p ?msgs ?opts s") blast
  then have "length (requests s') = Suc (length (requests s))"
    using provider_sends[OF assms(3), of fetch ?msgs ?opts s] by simp
  then show ?thesis
    using assms(1,2) c
    by (auto simp: analyzeTaste_def complete_def getLLMProvider_cached Let_def split: sum.splits)
qed

lemma analyzeTaste_provider_error:
  assumes "subscriptions input \<noteq> [] \<or> likedVideos input \<noteq> []"
    and "cachedProvider s = Some p" "token p \<noteq> []" "\<not> ok r"
  shows "fst (analyzeTaste (complete env (\<lambda>req. Inr r)) JSON_parse input s)
           = Inl (Error (''GitHub Models API error ('' @ natToString (status r) @ ''): '' @ bodyText r))"
proof -
  let ?msgs = "[\<lparr> LLMMessage.role = system, LLMMessage.content = analyzer_SYSTEM_PROMPT \<rparr>,
        \<lparr> LLMMessage.role = user, LLMMessage.content = buildAnalysisPrompt input \<rparr>]"
  let ?opts = "\<lparr> LLMCompletionOptions.temperature = Some (7 / 10), maxTokens = Some 2000,
         topP = None, LLMCompletionOptions.stop = None \<rparr>"
  obtain out s' where c: "GitHubModelsProvider_complete (\<lambda>req. Inr r) p ?msgs ?opts s = (out, s')"
    by (cases "GitHubModelsProvider_complete (\<lambda>req. Inr r) p ?msgs ?opts s") blast
  then have "out = Inl (Error (''GitHub Models API error ('' @ natToString (status r) @ ''): '' @ bodyText r))"
    using provider_not_ok[OF assms(3,4), of ?msgs ?opts s] by simp
  then show ?thesis
    using assms(1,2) c
    by (auto simp: analyzeTaste_def complete_def getLLMProvider_cached Let_def)
qed

text \<open>What the route throws for what its \<open>try\<close> block threw, on any configured server:
  an error with a status code unchanged, another \<open>Error\<close> as status 500 with that error's
  own message, and the fixed text only for a value that is not an \<open>Error\<close>. The error
  caught is written to the server log.\<close>

lemma analyzeHandler_caught:
  assumes "isLLMConfigured env s = (True, s1)"
    and "analyzeTry env fetch JSON_parse db s1 = (Inl error, s2)"
  shows "analyzeHandler env fetch JSON_parse db s =
              (Inl (case error of
                      H3Error statusCode m \<Rightarrow> H3Error statusCode m
                    | Error m \<Rightarrow> H3Error 500 m
                    | NonError \<Rightarrow> H3Error 500 ''Failed to analyze taste profile''),
               s2\<lparr>consoleErrors := consoleErrors s2 @ [error]\<rparr>)"
  using assms by (simp add: analyzeHandler_def analyzeCatch_def split: thrown.splits)

text \<open>On any server with a configured provider, cached or not, and with data to analyze:
  when the provider refuses the request, its status and the body of its answer are the
  message of the error that the route throws.\<close>

lemma analyzeHandler_provider_error:
  assumes p: "getLLMProvider env s = (Inr p, s1)" "token p \<noteq> []"
    and db: "selectUserData db = Inr (subs, vids)" "subs \<noteq> [] \<or> vids \<noteq> []"
    and r: "\<not> ok r"
  shows "fst (analyzeHandler env (\<lambda>req. Inr r) JSON_parse db s) =
              Inl (H3Error 500
                     (''GitHub Models API error ('' @ natToString (status r) @ ''): '' @ bodyText r))"
proof -
  let ?input = "\<lparr> subscriptions = subs, likedVideos = vids \<rparr>"
  let ?e = "Error (''GitHub Models API error ('' @ natToString (status r) @ ''): '' @ bodyText r)"
  have "fst (analyzeTaste (complete env (\<lambda>req. Inr r)) JSON_parse ?input s1) = Inl ?e"
    by (rule analyzeTaste_provider_error[where p = p])
       (use db p r getLLMProvider_caches[OF p(1)] in simp_all)
  then obtain s2 where "analyzeTaste (complete env (\<lambda>req. Inr r)) JSON_parse ?input s1 = (Inl ?e, s2)"
    by (metis prod.collapse)
  then have "analyzeTry env (\<lambda>req. Inr r) JSON_parse db s1 = (Inl ?e, s2)"
    using db by (auto simp: analyzeTry_def)
  from analyzeHandler_caught[OF isLLMConfigured_provider[OF p(1)] this]
  show ?thesis by simp
qed

lemma natToString_429: "natToString 429 = ''429''"
  by (simp add: natToString.simps digitChar_def)

text \<open>
  Claim C6. For an input whose two lists are empty, \<open>analyzeTaste\<close> fails with \<open>No YouTube
  data available to analyze\<close>; the language-model service is not called, so the state behind
  it is unchanged, and with the GitHub provider no request goes to the network.
\<close>

theorem analyzeTaste_no_data:
  "analyzeTaste llm JSON_parse \<lparr> subscriptions = [], likedVideos = [] \<rparr> s
     = (Inl (Error ''No YouTube data available to analyze. Please sync your YouTube data first.''), s)
   \<and> requests (snd (analyzeTaste (complete env fetch) JSON_parse
                        \<lparr> subscriptions = [], likedVideos = [] \<rparr> srv)) = requests srv"
  by (simp add: analyzeTaste_def)

theorem analyzeTaste_no_data_witness:
  "analyzeTaste (complete sampleEnv (\<lambda>req. Inr rejectedReply)) sampleParse
       \<lparr> subscriptions = [], likedVideos = [] \<rparr> freshServer
     = (Inl (Error ''No YouTube data available to analyze. Please sync your YouTube data first.''),
        freshServer)
   \<and> requests (snd (analyzeTaste (complete sampleEnv (\<lambda>req. Inr rejectedReply)) sampleParse
                        \<lparr> subscriptions = [], likedVideos = [] \<rparr> freshServer)) = []"
  using analyzeTaste_no_data[of "complete sampleEnv (\<lambda>req. Inr rejectedReply)" sampleParse
          freshServer sampleEnv "\<lambda>req. Inr rejectedReply" freshServer]
  by (simp add: freshServer_def)

text \<open>
  Claim C5. A failure inside the analyze pipeline is to reach the caller with a generic
  message and never with the provider's error body, which is for the server log only. The
  route does not do so. On a server with a token and one subscription to analyze, when the
  provider answers 429 with an error body, the route fails with status 500 and a message
  that holds the provider's status and that body, on the first request of the server
  process and on a later one alike; the generic text is not what the caller reads.
\<close>

theorem analyzeHandler_exposes_provider_body:
  "fst (analyzeHandler sampleEnv (\<lambda>req. Inr rejectedReply) sampleParse sampleDatabase freshServer)
     = Inl (H3Error 500 ''GitHub Models API error (429): quota exceeded for org acme'')
   \<and> fst (analyzeHandler sampleEnv (\<lambda>req. Inr rejectedReply) sampleParse sampleDatabase
            (snd (isLLMConfigured sampleEnv freshServer)))
     = Inl (H3Error 500 ''GitHub Models API error (429): quota exceeded for org acme'')
   \<and> ''GitHub Models API error (429): quota exceeded for org acme''
       \<noteq> ''Failed to analyze taste profile''"
proof -
  let ?p = "\<lparr> token = ''t'', GitHubModelsProvider.model = ''openai/gpt-4o'' \<rparr>"
  let ?s1 = "freshServer\<lparr>cachedProvider := Some ?p\<rparr>"
  have g: "getLLMProvider sampleEnv freshServer = (Inr ?p, ?s1)"
    using getLLMProvider_fresh[of sampleEnv "''t''" freshServer]
    by (simp add: sampleEnv_def freshServer_def DEFAULT_MODELS_def)
  have g1: "getLLMProvider sampleEnv ?s1 = (Inr ?p, ?s1)"
    by (rule getLLMProvider_cached) simp
  have c: "snd (isLLMConfigured sampleEnv freshServer) = ?s1"
    by (simp add: isLLMConfigured_provider[OF g])
  have db: "selectUserData sampleDatabase =
              Inr ([\<lparr> ChannelData.channelTitle = ''A'', channelDescription = None,
                      ChannelData.subscriberCount = None, videoCount = None \<rparr>], [])"
    by (simp add: sampleDatabase_def)
  have r: "\<not> ok rejectedReply" by (simp add: rejectedReply_def)
  have m: "''GitHub Models API error ('' @ natToString (status rejectedReply) @ ''): ''
             @ bodyText rejectedReply
           = ''GitHub Models API error (429): quota exceeded for org acme''"
    by (simp add: rejectedReply_def natToString_429)
  have first: "fst (analyzeHandler sampleEnv (\<lambda>req. Inr rejectedReply) sampleParse sampleDatabase
                      freshServer)
     = Inl (H3Error 500 ''GitHub Models API error (429): quota exceeded for org acme'')"
    using analyzeHandler_provider_error[OF g _ db _ r, of sampleParse, unfolded m] by simp
  have later: "fst (analyzeHandler sampleEnv (\<lambda>req. Inr rejectedReply) sampleParse sampleDatabase ?s1)
     = Inl (H3Error 500 ''GitHub Models API error (429): quota exceeded for org acme'')"
    using analyzeHandler_provider_error[OF g1 _ db _ r, of sampleParse, unfolded m] by simp
  show ?thesis
    using first later by (simp add: c)
qed

end
